theory Spec2Isabelle
  imports Main "HOL-Library.Word" "HOL-Library.Signed_Division"
begin

section \<open>The cproto client connection (src/unnamed/part\_001)\<close>

text \<open>
  A shallow embedding of the Go client connection of the cproto transport: the slot table
  with its sequence numbers, the deadline ticker, the reader, the failure transition and
  the synchronous call. Unsigned 32-bit values are \<open>32 word\<close>, so \<open>+\<close> and \<open>-\<close> wrap
  as Go's \<open>uint32\<close> does. The untyped constant \<open>queueSize\<close> is a natural number, converted
  with \<open>of_nat\<close> where the code uses it at type \<open>uint32\<close>; \<open>maxSeqNum\<close> occurs
  at that type only.

  Every function of the source is a function on an explicit connection state. A function
  that waits for another task is cut at the wait: \<open>rpcCall\<close> into the part before
  its \<open>select\<close> loop, one turn of the loop, and the part after it; \<open>readLoop\<close>
  and \<open>deadlineTicker\<close> into one turn each. Where a function blocks on a channel, or
  panics, the model returns \<open>None\<close>. Each part runs without interruption; the tasks of a connection
  interleave at these parts.

  Left out: the write loop, which only moves the bytes handed to \<open>write\<close> to the
  socket, the time stamp of the last read, and the server start time that \<open>login\<close>
  reads from a reply.
\<close>

subsection \<open>Constants\<close>

type_synonym u32 = "32 word"
type_synonym u16 = "16 word"
type_synonym byte = "8 word"

definition queueSize :: nat where
  "queueSize = 40"

definition maxSeqNum :: u32 where
  "maxSeqNum = of_nat queueSize * 10000000"

definition cprotoMagic :: u32 where
  "cprotoMagic = 0xEEDD1132"

definition cprotoVersion :: u16 where
  "cprotoVersion = 0x102"

definition cprotoMinCompatVersion :: u16 where
  "cprotoMinCompatVersion = 0x101"

definition cprotoHdrLen :: nat where
  "cprotoHdrLen = 16"

definition deadlineCheckPeriodSec :: u32 where
  "deadlineCheckPeriodSec = 1"

definition cmdPing :: int where
  "cmdPing = 0"

definition cmdLogin :: int where
  "cmdLogin = 1"

subsection \<open>Sequence numbers\<close>

definition seqNumIsValid :: "u32 \<Rightarrow> bool" where
  "seqNumIsValid seqNum = (if seqNum < maxSeqNum then True else False)"

definition nextSeqNum :: "u32 \<Rightarrow> u32" where
  "nextSeqNum seqNum0 =
     (let seqNum = seqNum0 + of_nat queueSize
      in if seqNum < maxSeqNum then seqNum else seqNum - maxSeqNum)"

text \<open>The slot of a sequence number: \<open>reqID := seq % queueSize\<close>.\<close>

definition reqID_of :: "u32 \<Rightarrow> nat" where
  "reqID_of seq = unat (seq mod of_nat queueSize)"

subsection \<open>Errors\<close>

text \<open>
  \<open>bindings.NewError(msg, code)\<close> is \<open>BindingsError msg code\<close>; the \<open>fmt.Errorf\<close>
  errors of the reader are one constructor each, carrying the value they print;
  \<open>io.ReadFull\<close> fails with \<open>io.EOF\<close> when it read nothing and with
  \<open>io.ErrUnexpectedEOF\<close> when the stream ended inside the block. \<open>NilDereference\<close>
  is the run-time panic of calling \<open>parseArgs\<close> through a nil buffer.
\<close>

datatype errCode = ErrTimeout | ErrCanceled | ErrOtherCode nat

datatype error =
    BindingsError string errCode
  | InvalidMagic u32
  | UnsupportedVersion u16
  | InvalidSeqNum u32
  | UnexpectedAnswer
  | EOF
  | ErrUnexpectedEOF
  | NetError string
  | NilDereference

subsection \<open>The argument encoder\<close>

text \<open>
  A call argument is a Go \<open>interface{}\<close> value. The kinds the type switch of
  \<open>rpcCall\<close> names have a constructor each; \<open>AOther\<close> is a value of any other
  dynamic type, named by that type.
\<close>

datatype arg =
    ABool bool
  | AInt int
  | AInt32 "32 word"
  | AInt64 "64 word"
  | AString string
  | ABytes "byte list"
  | AInt32Arr "32 word list"
  | AOther string

text \<open>
  Modelled from the spec: the encoder (\<open>newRPCEncoder\<close> and its methods) is not under
  src/. The spec says that arguments are emitted in submission order and that a secondary
  args chunk follows them. The model keeps the command, the sequence and the calls made on
  the encoder, in order; one such value stands for the bytes of one frame.
\<close>

datatype encItem =
    EncBool bool
  | EncInt int
  | EncInt64 "64 word"
  | EncString string
  | EncBytes "byte list"
  | EncInt32Arr "32 word list"
  | EncArgsChunck

record rpcEncoder =
  enc_cmd :: int
  enc_seq :: u32
  enc_items :: "encItem list"

definition newRPCEncoder :: "int \<Rightarrow> u32 \<Rightarrow> rpcEncoder" where
  "newRPCEncoder cmd seq = \<lparr>enc_cmd = cmd, enc_seq = seq, enc_items = []\<rparr>"

definition emit :: "encItem \<Rightarrow> rpcEncoder \<Rightarrow> rpcEncoder" where
  "emit x e = e\<lparr>enc_items := enc_items e @ [x]\<rparr>"

text \<open>The body of the loop over \<open>args\<close>: a type switch with no default branch.\<close>

fun encodeArg :: "arg \<Rightarrow> rpcEncoder \<Rightarrow> rpcEncoder" where
  "encodeArg (ABool t) e = emit (EncBool t) e"
| "encodeArg (AInt t) e = emit (EncInt t) e"
| "encodeArg (AInt32 t) e = emit (EncInt (sint t)) e"
| "encodeArg (AInt64 t) e = emit (EncInt64 t) e"
| "encodeArg (AString t) e = emit (EncString t) e"
| "encodeArg (ABytes t) e = emit (EncBytes t) e"
| "encodeArg (AInt32Arr t) e = emit (EncInt32Arr t) e"
| "encodeArg (AOther ty) e = e"

fun encodeArgs :: "arg list \<Rightarrow> rpcEncoder \<Rightarrow> rpcEncoder" where
  "encodeArgs [] e = e"
| "encodeArgs (a # as) e = encodeArgs as (encodeArg a e)"

subsection \<open>The connection\<close>

text \<open>
  An unbuffered channel is nil until \<open>make\<close> creates it. \<open>bufPtr\<close> pairs the
  sequence of a reply with its payload buffer.
\<close>

datatype chan = NilChan | MadeChan

type_synonym NetBuffer = "byte list"
type_synonym bufPtr = "u32 \<times> NetBuffer"

record requestInfo =
  seqNum :: u32
  repl :: chan
  deadline :: u32
  timeoutCh :: chan

text \<open>
  The fields of \<open>connection\<close> that the modelled functions use. \<open>conn\<close> is
  \<open>None\<close> while \<open>c.conn\<close> is nil and \<open>Some n\<close> for a socket on which
  \<open>Close\<close> has been called \<open>n\<close> times. \<open>wrBuf\<close> holds the frames handed to
  \<open>write\<close>, \<open>rdBuf\<close> the bytes that the peer sends before the stream ends.
  \<open>errCh\<close> and \<open>termCh\<close> are \<open>True\<close> once closed; \<open>wrKick\<close> is
  \<open>True\<close> while the buffered kick channel holds its one element.
\<close>

record connection =
  conn :: "nat option"
  wrBuf :: "rpcEncoder list"
  wrKick :: bool
  rdBuf :: "byte list"
  seqs :: "u32 list"
  err :: "error option"
  errCh :: bool
  now :: u32
  termCh :: bool
  requests :: "requestInfo list"

definition setSeqNum :: "nat \<Rightarrow> u32 \<Rightarrow> connection \<Rightarrow> connection" where
  "setSeqNum i v c = c\<lparr>requests := (requests c)[i := (requests c ! i)\<lparr>seqNum := v\<rparr>]\<rparr>"

definition setDeadline :: "nat \<Rightarrow> u32 \<Rightarrow> connection \<Rightarrow> connection" where
  "setDeadline i v c = c\<lparr>requests := (requests c)[i := (requests c ! i)\<lparr>deadline := v\<rparr>]\<rparr>"

subsection \<open>The failure transition\<close>

definition onError :: "connection \<Rightarrow> error \<Rightarrow> connection" where
  "onError c e =
     (if err c = None then
        (let c1 = c\<lparr>err := Some e\<rparr>;
             c2 = (case conn c1 of None \<Rightarrow> c1 | Some n \<Rightarrow> c1\<lparr>conn := Some (Suc n)\<rparr>)
         in if errCh c2 then c2 else c2\<lparr>errCh := True\<rparr>)
      else c)"

definition hasError :: "connection \<Rightarrow> bool" where
  "hasError c = (err c \<noteq> None)"

text \<open>
  \<open>Finalize\<close> closes \<open>termCh\<close>; closing a channel that is closed already panics.
\<close>

definition Finalize :: "connection \<Rightarrow> connection option" where
  "Finalize c = (if termCh c then None else Some (c\<lparr>termCh := True\<rparr>))"

subsection \<open>The header decoder\<close>

text \<open>
  Modelled from the spec: \<open>cjson.Serializer\<close> is not under src/. The spec's frame
  layout gives every header field as little-endian; each getter decodes the next bytes and
  returns what is left of the block.
\<close>

fun le_word :: "byte list \<Rightarrow> 'a::len word" where
  "le_word [] = 0"
| "le_word (b # bs) = ucast b + 256 * le_word bs"

definition GetUInt32 :: "byte list \<Rightarrow> u32 \<times> byte list" where
  "GetUInt32 ser = (le_word (take 4 ser), drop 4 ser)"

definition GetUInt16 :: "byte list \<Rightarrow> u16 \<times> byte list" where
  "GetUInt16 ser = (le_word (take 2 ser), drop 2 ser)"

subsection \<open>The reader\<close>

text \<open>
  \<open>io.ReadFull\<close> on the bytes that are left: the block and the rest, or the error of
  a stream that ends too early (all of it is consumed then). Reading an empty block never
  fails.
\<close>

definition ReadFull :: "byte list \<Rightarrow> nat \<Rightarrow> error + (byte list \<times> byte list)" where
  "ReadFull rd n =
     (if n \<le> length rd then Inr (take n rd, drop n rd)
      else if rd = [] then Inl EOF else Inl ErrUnexpectedEOF)"

text \<open>
  What one call of \<open>readReply\<close> ends with: an error, a payload drained and dropped, or
  the send of a \<open>bufPtr\<close> on the reply channel of slot \<open>reqID\<close>.
\<close>

datatype read_outcome = ReadErr error | Discarded | Deliver nat bufPtr

definition readReply :: "connection \<Rightarrow> connection \<times> read_outcome" where
  "readReply c =
     (case ReadFull (rdBuf c) cprotoHdrLen of
        Inl e \<Rightarrow> (c\<lparr>rdBuf := []\<rparr>, ReadErr e)
      | Inr (hdr, rest) \<Rightarrow>
          (let c1 = c\<lparr>rdBuf := rest\<rparr>;
               (magic, ser1) = GetUInt32 hdr
           in if magic \<noteq> cprotoMagic then (c1, ReadErr (InvalidMagic magic))
              else
                (let (version, ser2) = GetUInt16 ser1;
                     (reserved, ser3) = GetUInt16 ser2;
                     (size32, ser4) = GetUInt32 ser3;
                     size = unat size32;
                     (rseq, ser5) = GetUInt32 ser4
                 in if version < cprotoMinCompatVersion then (c1, ReadErr (UnsupportedVersion version))
                    else if \<not> seqNumIsValid rseq then (c1, ReadErr (InvalidSeqNum rseq))
                    else
                      (let reqID = reqID_of rseq
                       in if seqNum (requests c1 ! reqID) \<noteq> rseq
                          then (c1\<lparr>rdBuf := drop size (rdBuf c1)\<rparr>, Discarded)
                          else
                            (case ReadFull (rdBuf c1) size of
                               Inl e \<Rightarrow> (c1\<lparr>rdBuf := []\<rparr>, ReadErr e)
                             | Inr (answ, rest2) \<Rightarrow>
                                 (let c2 = c1\<lparr>rdBuf := rest2\<rparr>
                                  in if repl (requests c2 ! reqID) \<noteq> NilChan
                                     then (c2, Deliver reqID (rseq, answ))
                                     else (c2, ReadErr UnexpectedAnswer)))))))"

text \<open>
  One turn of \<open>readLoop\<close>. The reader is idle between two calls of \<open>readReply\<close>,
  blocked while its send on a reply channel has no receiver, and gone after an error.
\<close>

datatype reader_state = ReaderIdle | ReaderSending nat bufPtr | ReaderReturned

definition readLoop_iter :: "connection \<Rightarrow> connection \<times> reader_state" where
  "readLoop_iter c =
     (case readReply c of
        (c1, ReadErr e) \<Rightarrow> (onError c1 e, ReaderReturned)
      | (c1, Discarded) \<Rightarrow> (c1, ReaderIdle)
      | (c1, Deliver i bp) \<Rightarrow> (c1, ReaderSending i bp))"

subsection \<open>The deadline ticker\<close>

text \<open>
  The scan of the slots in one tick, from slot \<open>i\<close> on, with the tick's value of
  \<open>now\<close>. The send on a timeout channel blocks the ticker, so the scan stops at the
  first slot that fires and returns that slot and the sequence to send.
\<close>

function deadlineTicker_scan :: "u32 \<Rightarrow> connection \<Rightarrow> nat \<Rightarrow> connection \<times> (nat \<times> u32) option" where
  "deadlineTicker_scan nw c i =
     (if i < length (requests c) then
        (let sn = seqNum (requests c ! i)
         in if \<not> seqNumIsValid sn then deadlineTicker_scan nw c (Suc i)
            else
              (let dl = deadline (requests c ! i)
               in if dl \<noteq> 0 \<and> nw \<ge> dl then (setDeadline i 0 c, Some (i, sn))
                  else deadlineTicker_scan nw c (Suc i)))
      else (c, None))"
  by pat_completeness auto
termination
  by (relation "measure (\<lambda>(nw, c, i). length (requests c) - i)") auto

declare deadlineTicker_scan.simps [simp del]

text \<open>
  The ticker waits for its next tick, or is blocked in the send of a sequence on the
  timeout channel of a slot (it keeps the tick's value of \<open>now\<close> for the rest of the
  scan), or has returned.
\<close>

datatype ticker_state = TickerIdle | TickerSending nat u32 u32 | TickerReturned

definition scan_state :: "u32 \<Rightarrow> connection \<times> (nat \<times> u32) option \<Rightarrow> connection \<times> ticker_state" where
  "scan_state nw r =
     (case r of (c, None) \<Rightarrow> (c, TickerIdle) | (c, Some (i, sn)) \<Rightarrow> (c, TickerSending i sn nw))"

text \<open>One firing of \<open>ticker.C\<close>: the body of the loop of \<open>deadlineTicker\<close>.\<close>

definition deadlineTicker_iter :: "connection \<Rightarrow> connection \<times> ticker_state" where
  "deadlineTicker_iter c =
     (if errCh c \<or> termCh c then (c, TickerReturned)
      else
        (let nw = now c + deadlineCheckPeriodSec;
             c1 = c\<lparr>now := nw\<rparr>
         in scan_state nw (deadlineTicker_scan nw c1 0)))"

text \<open>A number of ticks in a row, none of them interrupted by another task.\<close>

fun ticks :: "nat \<Rightarrow> connection \<Rightarrow> connection" where
  "ticks 0 c = c"
| "ticks (Suc n) c = ticks n (fst (deadlineTicker_iter c))"

subsection \<open>The synchronous call\<close>

text \<open>
  The method \<open>write\<close> of the connection; \<open>write\<close> alone is a keyword of Isabelle.
\<close>

definition connection_write :: "connection \<Rightarrow> rpcEncoder \<Rightarrow> connection" where
  "connection_write c buf = c\<lparr>wrBuf := wrBuf c @ [buf], wrKick := True\<rparr>"

text \<open>
  \<open>rpcCall\<close> from its first line to the \<open>select\<close> loop. \<open>ctx\<close> is
  \<open>None\<close> for a context with no deadline and otherwise the nanoseconds left until the
  deadline, \<open>execDeadline.Sub(time.Now())\<close>; Go's division truncates. The call blocks
  (\<open>None\<close>) while no sequence is available; it has returned with an error, or it waits
  in the loop, holding its sequence.
\<close>

datatype call_state = Returned u32 error | Selecting u32

definition rpcCall_begin ::
  "connection \<Rightarrow> int option \<Rightarrow> int \<Rightarrow> u32 \<Rightarrow> arg list \<Rightarrow> (connection \<times> call_state) option" where
  "rpcCall_begin c ctx cmd netTimeout args =
     (case seqs c of
        [] \<Rightarrow> None
      | seq # rest \<Rightarrow>
          (let c1 = c\<lparr>seqs := rest\<rparr>;
               reqID = reqID_of seq;
               execTimeout = (case ctx of None \<Rightarrow> 0 | Some d \<Rightarrow> d sdiv 1000000)
           in if ctx \<noteq> None \<and> execTimeout \<le> 0
              then Some (c1, Returned seq (BindingsError ''Request was canceled'' ErrCanceled))
              else
                (let c2 = (if netTimeout \<noteq> 0 then setDeadline reqID (now c1 + netTimeout) c1 else c1);
                     c3 = setSeqNum reqID seq c2;
                     in1 = encodeArgs args (newRPCEncoder cmd seq);
                     in2 = emit EncArgsChunck in1;
                     in3 = emit (EncInt64 (word_of_int execTimeout)) in2
                 in Some (connection_write c3 in3, Selecting seq))))"

text \<open>
  One turn of the \<open>select\<close> loop, at the event that the runtime picked. The receive
  from \<open>errCh\<close> is possible only once that channel is closed.
\<close>

datatype sel_event = RecvReply bufPtr | RecvErrCh | RecvTimeout u32

datatype sel_result = Continue | Break "NetBuffer option" "error option"

definition rpcCall_select :: "connection \<Rightarrow> u32 \<Rightarrow> sel_event \<Rightarrow> sel_result option" where
  "rpcCall_select c seq ev =
     (case ev of
        RecvReply bp \<Rightarrow> Some (if fst bp = seq then Break (Some (snd bp)) None else Continue)
      | RecvErrCh \<Rightarrow> (if errCh c then Some (Break None (err c)) else None)
      | RecvTimeout timeoutSeq \<Rightarrow>
          Some (if timeoutSeq = seq then Break None (Some (BindingsError ''Request timeout'' ErrTimeout))
                else Continue))"

text \<open>
  \<open>rpcCall\<close> after the loop. \<open>parseArgs\<close> is not under src/ and is a parameter.
  The send on \<open>seqs\<close> blocks while that channel holds \<open>queueSize\<close> elements.
\<close>

definition rpcCall_finish ::
  "(NetBuffer \<Rightarrow> error option) \<Rightarrow> connection \<Rightarrow> u32 \<Rightarrow> NetBuffer option \<Rightarrow> error option
     \<Rightarrow> (connection \<times> NetBuffer option \<times> error option) option" where
  "rpcCall_finish parseArgs c seq buf er =
     (let c1 = setSeqNum (reqID_of seq) maxSeqNum c
      in if length (seqs c1) < queueSize then
           (let c2 = c1\<lparr>seqs := seqs c1 @ [nextSeqNum seq]\<rparr>
            in case er of
                 Some e \<Rightarrow> Some (c2, buf, Some e)
               | None \<Rightarrow>
                   (case buf of
                      None \<Rightarrow> Some (c2, None, Some NilDereference)
                    | Some b \<Rightarrow> Some (c2, buf, parseArgs b)))
         else None)"

subsection \<open>Construction and login\<close>

text \<open>The struct literal of \<open>newConnection\<close> and the loop that fills the slot table.\<close>

definition emptyConnection :: connection where
  "emptyConnection =
     \<lparr>conn = None, wrBuf = [], wrKick = False, rdBuf = [], seqs = [], err = None,
      errCh = False, now = 0, termCh = False,
      requests = replicate queueSize
        \<lparr>seqNum = 0, repl = NilChan, deadline = 0, timeoutCh = NilChan\<rparr>\<rparr>"

function initSlots :: "nat \<Rightarrow> connection \<Rightarrow> connection" where
  "initSlots i c =
     (if i < queueSize then
        initSlots (Suc i)
          (c\<lparr>seqs := seqs c @ [of_nat i],
             requests := (requests c)[i := (requests c ! i)\<lparr>repl := MadeChan, timeoutCh := MadeChan\<rparr>]\<rparr>)
      else c)"
  by pat_completeness auto
termination
  by (relation "measure (\<lambda>(i, c). queueSize - i)") auto

declare initSlots.simps [simp del]

text \<open>
  The dial is the environment's: \<open>dialer\<close> answers the call that \<open>connect\<close> makes,
  with the bytes that the new socket will deliver, a timeout, or another error.
\<close>

datatype dialCall = Dial | DialTimeout u32

datatype dialResult = Connected "byte list" | DialTimedOut | DialFailed string

definition connect_call :: "u32 \<Rightarrow> dialCall" where
  "connect_call timeout = (if timeout = 0 then Dial else DialTimeout timeout)"

definition connect :: "(dialCall \<Rightarrow> dialResult) \<Rightarrow> connection \<Rightarrow> u32 \<Rightarrow> connection \<times> error option" where
  "connect dialer c timeout =
     (case dialer (connect_call timeout) of
        Connected inp \<Rightarrow> (c\<lparr>conn := Some 0, rdBuf := inp\<rparr>, None)
      | DialTimedOut \<Rightarrow> (c, Some (BindingsError ''Connect timeout'' ErrTimeout))
      | DialFailed m \<Rightarrow> (c, Some (NetError m)))"

text \<open>
  \<open>login\<close> up to the \<open>select\<close> loop of its \<open>rpcCall\<close>. \<open>user\<close> is the user
  name and password of the URL, if it has any; the context is \<open>context.TODO()\<close>, which has
  no deadline.
\<close>

definition login_begin ::
  "connection \<Rightarrow> (string \<times> string) option \<Rightarrow> string \<Rightarrow> u32 \<Rightarrow> (connection \<times> call_state) option" where
  "login_begin c user path0 timeout =
     (let username = (case user of None \<Rightarrow> [] | Some (u, p) \<Rightarrow> u);
          password = (case user of None \<Rightarrow> [] | Some (u, p) \<Rightarrow> p);
          path = (if length path0 > 0 \<and> hd path0 = CHR ''/'' then tl path0 else path0)
      in rpcCall_begin c None cmdLogin timeout [AString username, AString password, AString path])"

definition loginTimeoutSec :: "int \<Rightarrow> u32" where
  "loginTimeoutSec d = word_of_int (d sdiv 1000000000)"

text \<open>
  What \<open>login\<close> and then \<open>newConnection\<close> do when the \<open>rpcCall\<close> of the login
  has returned with the error \<open>er\<close>: \<open>login\<close> stores the error in \<open>c.err\<close>
  itself, as Login timeout when its code is the timeout's, and \<open>newConnection\<close> passes
  the error that \<open>login\<close> returns to \<open>onError\<close>.
\<close>

definition login_returned :: "connection \<Rightarrow> error option \<Rightarrow> connection" where
  "login_returned c er =
     (case er of
        None \<Rightarrow> c
      | Some e \<Rightarrow>
          onError
            (c\<lparr>err := Some (case e of
                               BindingsError m ErrTimeout \<Rightarrow> BindingsError ''Login timeout'' ErrTimeout
                             | _ \<Rightarrow> e)\<rparr>)
            e)"

text \<open>
  \<open>newConnection\<close> up to the point where the login request waits for its reply.
  \<open>LoginTimeout\<close> is the configured duration in nanoseconds. The ticker runs from before
  the dial, and \<open>newConnection\<close> loads \<open>c.now\<close> twice: for the test of the remaining
  budget, when the ticker has ticked \<open>elapsed\<close> times, and again for the subtraction,
  when it has ticked \<open>between\<close> times more. The result is the error that
  \<open>newConnection\<close> returns early with, or the timeout that it passes to \<open>login\<close> and
  the state of that call.
\<close>

datatype nc_state = NCReturned "error option" | NCLogin u32 call_state

definition newConnection_login ::
  "connection \<Rightarrow> (string \<times> string) option \<Rightarrow> string \<Rightarrow> u32 \<Rightarrow> (connection \<times> nc_state) option" where
  "newConnection_login c user path loginTimeout =
     (case login_begin c user path loginTimeout of
        None \<Rightarrow> None
      | Some (c1, st) \<Rightarrow> Some (c1, NCLogin loginTimeout st))"

definition newConnection ::
  "(dialCall \<Rightarrow> dialResult) \<Rightarrow> nat \<Rightarrow> nat \<Rightarrow> int \<Rightarrow> (string \<times> string) option \<Rightarrow> string
     \<Rightarrow> (connection \<times> nc_state) option" where
  "newConnection dialer elapsed between LoginTimeout user path =
     (let c0 = initSlots 0 emptyConnection;
          loginTimeout = loginTimeoutSec LoginTimeout;
          (c1, e) = connect dialer c0 loginTimeout;
          c2 = ticks elapsed c1
      in case e of
           Some er \<Rightarrow> Some (onError c2 er, NCReturned (Some er))
         | None \<Rightarrow>
             if loginTimeout \<noteq> 0 then
               (if loginTimeout > now c2 then
                  (let c3 = ticks between c2
                   in newConnection_login c3 user path (loginTimeout - now c3))
                else Some (onError c2 (BindingsError ''Connect timeout'' ErrTimeout), NCReturned None))
             else newConnection_login c2 user path loginTimeout)"

subsection \<open>The tasks of one connection, interleaved\<close>

text \<open>
  The state of the connection together with the ticker, the reader and the calls that wait
  in their \<open>select\<close> loop, each with its sequence and the \<open>netTimeout\<close> it was
  submitted with. \<open>finished\<close> lists the calls that returned, with what they returned;
  \<open>login\<close> is the sequence of the login call while \<open>newConnection\<close> waits for it.
  An action is one step of one task; \<open>exec\<close> is \<open>None\<close> where the task cannot take
  that step. A send on an unbuffered channel and its receive are one step, taken by the
  receiver.
\<close>

record system =
  con :: connection
  ticker :: ticker_state
  reader :: reader_state
  waiters :: "(u32 \<times> u32) list"
  finished :: "(u32 \<times> u32 \<times> NetBuffer option \<times> error option) list"
  login :: "u32 option"

datatype action =
    Call "int option" int u32 "arg list"
  | Tick
  | TakeTimeout u32
  | Read
  | TakeReply u32
  | TakeErr u32
  | Terminate

definition resolve ::
  "(NetBuffer \<Rightarrow> error option) \<Rightarrow> system \<Rightarrow> u32 \<Rightarrow> sel_event \<Rightarrow> system option" where
  "resolve parseArgs s seq ev =
     (case map_of (waiters s) seq of
        None \<Rightarrow> None
      | Some nt \<Rightarrow>
          (case rpcCall_select (con s) seq ev of
             None \<Rightarrow> None
           | Some Continue \<Rightarrow> Some s
           | Some (Break buf e) \<Rightarrow>
               (case rpcCall_finish parseArgs (con s) seq buf e of
                  None \<Rightarrow> None
                | Some (c, res) \<Rightarrow>
                    Some (s\<lparr>con := (if login s = Some seq then login_returned c (snd res) else c),
                            waiters := remove1 (seq, nt) (waiters s),
                            finished := finished s @ [(seq, nt, res)],
                            login := (if login s = Some seq then None else login s)\<rparr>))))"

fun exec :: "(NetBuffer \<Rightarrow> error option) \<Rightarrow> action \<Rightarrow> system \<Rightarrow> system option" where
  "exec parseArgs (Call ctx cmd nt args) s =
     (case rpcCall_begin (con s) ctx cmd nt args of
        None \<Rightarrow> None
      | Some (c, Returned seq e) \<Rightarrow> Some (s\<lparr>con := c, finished := finished s @ [(seq, nt, None, Some e)]\<rparr>)
      | Some (c, Selecting seq) \<Rightarrow> Some (s\<lparr>con := c, waiters := waiters s @ [(seq, nt)]\<rparr>))"
| "exec parseArgs Tick s =
     (case ticker s of
        TickerIdle \<Rightarrow> (let (c, t) = deadlineTicker_iter (con s) in Some (s\<lparr>con := c, ticker := t\<rparr>))
      | _ \<Rightarrow> None)"
| "exec parseArgs (TakeTimeout seq) s =
     (case ticker s of
        TickerSending i sn nw \<Rightarrow>
          (if reqID_of seq = i \<and> timeoutCh (requests (con s) ! i) = MadeChan then
             (case resolve parseArgs s seq (RecvTimeout sn) of
                None \<Rightarrow> None
              | Some s1 \<Rightarrow>
                  (let (c, t) = scan_state nw (deadlineTicker_scan nw (con s1) (Suc i))
                   in Some (s1\<lparr>con := c, ticker := t\<rparr>)))
           else None)
      | _ \<Rightarrow> None)"
| "exec parseArgs Read s =
     (case reader s of
        ReaderIdle \<Rightarrow> (let (c, r) = readLoop_iter (con s) in Some (s\<lparr>con := c, reader := r\<rparr>))
      | _ \<Rightarrow> None)"
| "exec parseArgs (TakeReply seq) s =
     (case reader s of
        ReaderSending i bp \<Rightarrow>
          (if reqID_of seq = i then
             (case resolve parseArgs s seq (RecvReply bp) of
                None \<Rightarrow> None
              | Some s1 \<Rightarrow> Some (s1\<lparr>reader := ReaderIdle\<rparr>))
           else None)
      | _ \<Rightarrow> None)"
| "exec parseArgs (TakeErr seq) s = resolve parseArgs s seq RecvErrCh"
| "exec parseArgs Terminate s =
     (case Finalize (con s) of None \<Rightarrow> None | Some c \<Rightarrow> Some (s\<lparr>con := c\<rparr>))"

fun run :: "(NetBuffer \<Rightarrow> error option) \<Rightarrow> action list \<Rightarrow> system \<Rightarrow> system option" where
  "run parseArgs [] s = Some s"
| "run parseArgs (a # as) s =
     (case exec parseArgs a s of None \<Rightarrow> None | Some s1 \<Rightarrow> run parseArgs as s1)"

text \<open>
  The system that \<open>newConnection\<close> leaves behind: the ticker runs, the reader runs if the
  dial succeeded, and the login request waits if it was submitted.
\<close>

definition boot ::
  "(dialCall \<Rightarrow> dialResult) \<Rightarrow> nat \<Rightarrow> nat \<Rightarrow> int \<Rightarrow> (string \<times> string) option \<Rightarrow> string
     \<Rightarrow> system option" where
  "boot dialer elapsed between LoginTimeout user path =
     (case newConnection dialer elapsed between LoginTimeout user path of
        None \<Rightarrow> None
      | Some (c, st) \<Rightarrow>
          Some \<lparr>con = c, ticker = TickerIdle,
                reader = (if conn c = None then ReaderReturned else ReaderIdle),
                waiters = (case st of NCLogin t (Selecting seq) \<Rightarrow> [(seq, t)] | _ \<Rightarrow> []),
                finished = [],
                login = (case st of NCLogin t (Selecting seq) \<Rightarrow> Some seq | _ \<Rightarrow> None)\<rparr>)"

subsection \<open>Vocabulary of the statements\<close>

text \<open>
  The header fields as \<open>readReply\<close> decodes them from the 16 bytes of a header, and
  the connection once those bytes are consumed.
\<close>

definition hdr_magic :: "byte list \<Rightarrow> u32" where
  "hdr_magic hdr = fst (GetUInt32 hdr)"

definition hdr_version :: "byte list \<Rightarrow> u16" where
  "hdr_version hdr = fst (GetUInt16 (drop 4 hdr))"

definition hdr_size :: "byte list \<Rightarrow> nat" where
  "hdr_size hdr = unat (fst (GetUInt32 (drop 8 hdr)))"

definition hdr_rseq :: "byte list \<Rightarrow> u32" where
  "hdr_rseq hdr = fst (GetUInt32 (drop 12 hdr))"

definition after_hdr :: "connection \<Rightarrow> connection" where
  "after_hdr c = c\<lparr>rdBuf := drop cprotoHdrLen (rdBuf c)\<rparr>"

text \<open>The three errors with which \<open>readReply\<close> rejects a header.\<close>

fun header_error :: "error \<Rightarrow> bool" where
  "header_error (InvalidMagic m) = True"
| "header_error (UnsupportedVersion v) = True"
| "header_error (InvalidSeqNum q) = True"
| "header_error e = False"

text \<open>The argument kinds that the type switch of \<open>rpcCall\<close> has a case for.\<close>

fun supported :: "arg \<Rightarrow> bool" where
  "supported (AOther ty) = False"
| "supported a = True"

text \<open>
  Slot \<open>i\<close> is idle: its sequence field holds the sentinel that \<open>rpcCall\<close> stores
  after its loop. An action acquires a sequence of slot \<open>i\<close> when it is a call and the
  sequence at the head of the queue belongs to that slot.
\<close>

definition idle :: "connection \<Rightarrow> nat \<Rightarrow> bool" where
  "idle c i = (i < length (requests c) \<and> seqNum (requests c ! i) = maxSeqNum)"

definition acquires :: "action \<Rightarrow> system \<Rightarrow> nat \<Rightarrow> bool" where
  "acquires a s i =
     (case a of
        Call ctx cmd nt args \<Rightarrow> (case seqs (con s) of [] \<Rightarrow> False | seq # rest \<Rightarrow> reqID_of seq = i)
      | _ \<Rightarrow> False)"

text \<open>
  A schedule is quiet for slot \<open>i\<close> from a state when none of its actions, each taken in
  the state that the actions before it lead to, acquires a sequence of slot \<open>i\<close>.
\<close>

fun quiet :: "(NetBuffer \<Rightarrow> error option) \<Rightarrow> action list \<Rightarrow> system \<Rightarrow> nat \<Rightarrow> bool" where
  "quiet parseArgs [] s i = True"
| "quiet parseArgs (a # as) s i =
     (\<not> acquires a s i \<and>
      (case exec parseArgs a s of None \<Rightarrow> True | Some s1 \<Rightarrow> quiet parseArgs as s1 i))"

text \<open>
  The execution timeout in milliseconds that \<open>rpcCall\<close> computes from its context, the
  test with which it returns Canceled, and the frame that it hands to the writer.
\<close>

definition execTimeout_of :: "int option \<Rightarrow> int" where
  "execTimeout_of ctx = (case ctx of None \<Rightarrow> 0 | Some d \<Rightarrow> d sdiv 1000000)"

definition expired :: "int option \<Rightarrow> bool" where
  "expired ctx = (ctx \<noteq> None \<and> execTimeout_of ctx \<le> 0)"

definition frame_of :: "int \<Rightarrow> u32 \<Rightarrow> arg list \<Rightarrow> int option \<Rightarrow> rpcEncoder" where
  "frame_of cmd seq args ctx =
     emit (EncInt64 (word_of_int (execTimeout_of ctx)))
       (emit EncArgsChunck (encodeArgs args (newRPCEncoder cmd seq)))"

text \<open>
  A slot as the loop of \<open>newConnection\<close> leaves it, and the connection after a dial that
  succeeded while the ticker ticked \<open>elapsed\<close> times.
\<close>

definition madeSlot :: requestInfo where
  "madeSlot = \<lparr>seqNum = 0, repl = MadeChan, deadline = 0, timeoutCh = MadeChan\<rparr>"

definition connected :: "byte list \<Rightarrow> nat \<Rightarrow> connection" where
  "connected inp elapsed =
     emptyConnection\<lparr>conn := Some 0, rdBuf := inp, seqs := 0 # map of_nat [1..<queueSize],
                      now := of_nat elapsed, requests := replicate queueSize madeSlot\<rparr>"

subsection \<open>Inbound bytes used as examples\<close>

text \<open>
  Headers with a wrong magic, with version 0x100 and with sequence 400000000; a frame for
  sequence 40 with a payload of two bytes; the same header announcing five bytes on a
  stream that ends after two; and a header for sequence 0 with an empty payload.
\<close>

definition hdr_bad_magic :: "byte list" where
  "hdr_bad_magic = [0, 0, 0, 0, 0x02, 0x01, 0, 0, 0, 0, 0, 0, 0, 0, 0, 0]"

definition hdr_old_version :: "byte list" where
  "hdr_old_version = [0x32, 0x11, 0xDD, 0xEE, 0x00, 0x01, 0, 0, 0, 0, 0, 0, 0, 0, 0, 0]"

definition hdr_bad_seq :: "byte list" where
  "hdr_bad_seq = [0x32, 0x11, 0xDD, 0xEE, 0x02, 0x01, 0, 0, 0, 0, 0, 0, 0x00, 0x84, 0xD7, 0x17]"

definition frame_seq40_size2 :: "byte list" where
  "frame_seq40_size2 = [0x32, 0x11, 0xDD, 0xEE, 0x02, 0x01, 0, 0, 2, 0, 0, 0, 40, 0, 0, 0, 7, 9]"

definition frame_seq40_size5_cut :: "byte list" where
  "frame_seq40_size5_cut = [0x32, 0x11, 0xDD, 0xEE, 0x02, 0x01, 0, 0, 5, 0, 0, 0, 40, 0, 0, 0, 7, 9]"

definition hdr_seq0_size0 :: "byte list" where
  "hdr_seq0_size0 = [0x32, 0x11, 0xDD, 0xEE, 0x02, 0x01, 0, 0, 0, 0, 0, 0, 0, 0, 0, 0]"

section \<open>Properties\<close>

subsection \<open>Sequence numbers\<close>

lemma maxSeqNum_val: "maxSeqNum = 400000000"
  by (simp add: maxSeqNum_def queueSize_def)

lemma unat_maxSeqNum: "unat maxSeqNum = queueSize * 10000000"
  by (simp add: maxSeqNum_def queueSize_def)

lemma reqID_of_unat: "reqID_of s = unat s mod queueSize"
  by (simp add: reqID_of_def queueSize_def unat_mod)

lemma reqID_of_less: "reqID_of s < queueSize"
  by (simp add: reqID_of_unat queueSize_def)

lemma nextSeqNum_unat:
  assumes "s < maxSeqNum"
  shows "unat (nextSeqNum s) = (unat s + queueSize) mod unat maxSeqNum"
proof -
  from assms have b: "unat s < 400000000"
    by (simp add: maxSeqNum_val word_less_nat_alt)
  have u: "unat (s + 40) = unat s + 40"
    using b by (simp add: unat_word_ariths)
  show ?thesis
  proof (cases "s + 40 < (400000000 :: u32)")
    case True
    then have "unat s + 40 < 400000000"
      using u by (simp add: word_less_nat_alt)
    then show ?thesis
      using True u by (simp add: nextSeqNum_def maxSeqNum_val queueSize_def)
  next
    case False
    then have ge: "400000000 \<le> unat s + 40"
      using u by (simp add: word_less_nat_alt)
    have "unat (s + 40 - 400000000) = unat s + 40 - 400000000"
      using ge u by (simp add: unat_sub_if' word_le_nat_alt)
    moreover have "(unat s + 40) mod 400000000 = unat s + 40 - 400000000"
      using ge b by (simp add: mod_if)
    ultimately show ?thesis
      using False by (simp add: nextSeqNum_def maxSeqNum_val queueSize_def)
  qed
qed

lemma rpcCall_finish_seqs:
  assumes "length (seqs c) < queueSize"
  shows "\<exists>c' res. rpcCall_finish parseArgs c s buf er = Some (c', res)
           \<and> seqs c' = seqs c @ [nextSeqNum s]"
  using assms
  by (cases er; cases buf) (simp_all add: rpcCall_finish_def setSeqNum_def Let_def)

text \<open>
  C4. For every sequence number \<open>s\<close> below \<open>maxSeqNum\<close>, which is
  \<open>queueSize * 10000000\<close>, the successor that \<open>nextSeqNum\<close> computes is
  \<open>(s + queueSize) mod maxSeqNum\<close>; it is below \<open>maxSeqNum\<close>, belongs to the same slot
  \<open>s mod queueSize\<close> and differs from \<open>s\<close>. The code after the \<open>select\<close> loop
  of a call on sequence \<open>s\<close> appends exactly this value to the queue of available
  sequences.
\<close>

theorem nextSeqNum_successor:
  assumes "s < maxSeqNum"
  shows "unat maxSeqNum = queueSize * 10000000
       \<and> unat (nextSeqNum s) = (unat s + queueSize) mod unat maxSeqNum
       \<and> nextSeqNum s < maxSeqNum
       \<and> reqID_of (nextSeqNum s) = reqID_of s
       \<and> reqID_of s = unat s mod queueSize
       \<and> nextSeqNum s \<noteq> s
       \<and> (\<forall>c buf er. length (seqs c) < queueSize \<longrightarrow>
            (\<exists>c' res. rpcCall_finish parseArgs c s buf er = Some (c', res)
               \<and> seqs c' = seqs c @ [nextSeqNum s]))"
proof -
  have n: "unat (nextSeqNum s) = (unat s + queueSize) mod unat maxSeqNum"
    using assms by (rule nextSeqNum_unat)
  have b: "unat s < 400000000"
    using assms by (simp add: maxSeqNum_val word_less_nat_alt)
  have lt: "nextSeqNum s < maxSeqNum"
    using n by (simp add: word_less_nat_alt unat_maxSeqNum queueSize_def)
  have slot: "reqID_of (nextSeqNum s) = reqID_of s"
  proof -
    have "(unat s + 40) mod 400000000 mod 40 = (unat s + 40) mod 40"
      by (rule mod_mod_cancel) simp
    then show ?thesis
      using n by (simp add: reqID_of_unat unat_maxSeqNum queueSize_def)
  qed
  have ne: "nextSeqNum s \<noteq> s"
  proof
    assume "nextSeqNum s = s"
    then have "(unat s + 40) mod 400000000 = unat s"
      using n by (simp add: unat_maxSeqNum queueSize_def)
    then show False
      using b by (simp add: mod_if split: if_splits)
  qed
  show ?thesis
    using n lt slot ne unat_maxSeqNum reqID_of_unat rpcCall_finish_seqs by blast
qed

theorem nextSeqNum_successor_witness:
  "(399999999 :: u32) < maxSeqNum
   \<and> nextSeqNum 399999999 = 39
   \<and> reqID_of 399999999 = 39
   \<and> length (seqs emptyConnection) < queueSize
   \<and> map_option (seqs \<circ> fst) (rpcCall_finish (\<lambda>b. None) emptyConnection 399999999 None (Some EOF))
       = Some [39]"
  using nextSeqNum_successor [of 399999999 "\<lambda>b. None"]
  by (simp add: maxSeqNum_val nextSeqNum_def queueSize_def reqID_of_def emptyConnection_def
      rpcCall_finish_def setSeqNum_def)

subsection \<open>The failure transition\<close>

lemma onError_first:
  "err c = None \<Longrightarrow>
   onError c e = c\<lparr>err := Some e, conn := map_option Suc (conn c), errCh := True\<rparr>"
  by (cases "conn c") (simp_all add: onError_def Let_def)

lemma onError_again: "err c \<noteq> None \<Longrightarrow> onError c e = c"
  by (auto simp add: onError_def)

lemma onError_idem: "onError (onError c e) e' = onError c e"
  by (cases "conn c") (auto simp add: onError_def Let_def)

text \<open>
  C9. The failure transition is one-shot and idempotent. The first \<open>onError\<close>, on a
  connection with no stored error, stores the error, calls \<open>Close\<close> on the socket once
  (if there is a socket) and leaves the failure channel closed. On a connection that has a
  stored error \<open>onError\<close> with any error is the identity, so a second \<open>onError\<close>
  changes neither the stored error, nor the socket, nor the failure channel.
\<close>

theorem onError_one_shot:
  "(err c = None \<longrightarrow>
      onError c e = c\<lparr>err := Some e, conn := map_option Suc (conn c), errCh := True\<rparr>)
   \<and> (err c \<noteq> None \<longrightarrow> onError c e = c)
   \<and> onError (onError c e) e' = onError c e"
  using onError_first onError_again onError_idem by blast

theorem onError_one_shot_witness:
  "err (emptyConnection\<lparr>conn := Some 0\<rparr>) = None
   \<and> onError (emptyConnection\<lparr>conn := Some 0\<rparr>) EOF
       = emptyConnection\<lparr>conn := Some 0\<rparr>\<lparr>err := Some EOF, conn := Some 1, errCh := True\<rparr>
   \<and> err (onError (emptyConnection\<lparr>conn := Some 0\<rparr>) EOF) \<noteq> None
   \<and> onError (onError (emptyConnection\<lparr>conn := Some 0\<rparr>) EOF) (NetError ''reset'')
       = onError (emptyConnection\<lparr>conn := Some 0\<rparr>) EOF"
  using onError_one_shot [of "emptyConnection\<lparr>conn := Some 0\<rparr>" EOF "NetError ''reset''"]
    onError_one_shot [of "onError (emptyConnection\<lparr>conn := Some 0\<rparr>) EOF" "NetError ''reset''" EOF]
  by (simp add: emptyConnection_def onError_def)

subsection \<open>The select loop of a call\<close>

lemma rpcCall_select_Break:
  "rpcCall_select c seq ev = Some (Break buf er) \<longleftrightarrow>
     (\<exists>b. ev = RecvReply (seq, b) \<and> buf = Some b \<and> er = None)
   \<or> (ev = RecvTimeout seq \<and> buf = None \<and> er = Some (BindingsError ''Request timeout'' ErrTimeout))
   \<or> (ev = RecvErrCh \<and> errCh c \<and> buf = None \<and> er = err c)"
  by (cases ev) (auto simp add: rpcCall_select_def)

lemma resolve_Continue:
  "map_of (waiters s) seq \<noteq> None \<Longrightarrow> rpcCall_select (con s) seq ev = Some Continue \<Longrightarrow>
   resolve parseArgs s seq ev = Some s"
  by (auto simp add: resolve_def)

text \<open>
  C7. A call that waits in its \<open>select\<close> loop on sequence \<open>seq\<close> leaves the loop
  only at a reply that carries \<open>seq\<close> (with that reply's buffer), at a timeout signal
  that carries \<open>seq\<close> (with the error Request timeout), or at the closed failure channel
  (with the stored error). A reply or a timeout signal with any other sequence makes the
  loop continue, and the waiting call and the whole system stay as they are.
\<close>

theorem rpcCall_select_accepts:
  "(rpcCall_select c seq ev = Some (Break buf er) \<longleftrightarrow>
      (\<exists>b. ev = RecvReply (seq, b) \<and> buf = Some b \<and> er = None)
    \<or> (ev = RecvTimeout seq \<and> buf = None \<and> er = Some (BindingsError ''Request timeout'' ErrTimeout))
    \<or> (ev = RecvErrCh \<and> errCh c \<and> buf = None \<and> er = err c))
   \<and> (rseq \<noteq> seq \<longrightarrow> rpcCall_select c seq (RecvReply (rseq, b)) = Some Continue)
   \<and> (t \<noteq> seq \<longrightarrow> rpcCall_select c seq (RecvTimeout t) = Some Continue)
   \<and> (map_of (waiters s) seq \<noteq> None \<longrightarrow> rpcCall_select (con s) seq ev = Some Continue \<longrightarrow>
        resolve parseArgs s seq ev = Some s)"
  using rpcCall_select_Break [of c seq ev buf er] resolve_Continue [of s seq ev parseArgs]
  by (simp add: rpcCall_select_def)

theorem rpcCall_select_accepts_witness:
  "(45 :: u32) \<noteq> 5
   \<and> rpcCall_select emptyConnection 5 (RecvReply (45, [])) = Some Continue
   \<and> rpcCall_select emptyConnection 5 (RecvTimeout 45) = Some Continue
   \<and> map_of (waiters \<lparr>con = emptyConnection, ticker = TickerIdle, reader = ReaderIdle,
                      waiters = [(5, 0)], finished = [], login = None\<rparr>) 5 \<noteq> None
   \<and> resolve (\<lambda>b. None) \<lparr>con = emptyConnection, ticker = TickerIdle, reader = ReaderIdle,
                      waiters = [(5, 0)], finished = [], login = None\<rparr> 5 (RecvTimeout 45)
       = Some \<lparr>con = emptyConnection, ticker = TickerIdle, reader = ReaderIdle,
                      waiters = [(5, 0)], finished = [], login = None\<rparr>"
  using rpcCall_select_accepts [of emptyConnection 5 "RecvTimeout 45" None None 45 "[]" 45
      "\<lparr>con = emptyConnection, ticker = TickerIdle, reader = ReaderIdle,
                      waiters = [(5, 0)], finished = [], login = None\<rparr>" "\<lambda>b. None"]
  by (simp add: rpcCall_select_def)

subsection \<open>The reader\<close>

lemma readReply_short:
  "length (rdBuf c) < cprotoHdrLen \<Longrightarrow>
   readReply c = (c\<lparr>rdBuf := []\<rparr>, ReadErr (if rdBuf c = [] then EOF else ErrUnexpectedEOF))"
  by (simp add: readReply_def ReadFull_def)

lemma readReply_hdr:
  assumes "cprotoHdrLen \<le> length (rdBuf c)"
  shows "readReply c =
    (let hdr = take cprotoHdrLen (rdBuf c); c1 = after_hdr c; rseq = hdr_rseq hdr; reqID = reqID_of rseq
     in if hdr_magic hdr \<noteq> cprotoMagic then (c1, ReadErr (InvalidMagic (hdr_magic hdr)))
        else if hdr_version hdr < cprotoMinCompatVersion then (c1, ReadErr (UnsupportedVersion (hdr_version hdr)))
        else if \<not> seqNumIsValid rseq then (c1, ReadErr (InvalidSeqNum rseq))
        else if seqNum (requests c ! reqID) \<noteq> rseq
          then (c1\<lparr>rdBuf := drop (hdr_size hdr) (rdBuf c1)\<rparr>, Discarded)
        else if length (rdBuf c1) < hdr_size hdr
          then (c1\<lparr>rdBuf := []\<rparr>, ReadErr (if rdBuf c1 = [] then EOF else ErrUnexpectedEOF))
        else if repl (requests c ! reqID) \<noteq> NilChan
          then (c1\<lparr>rdBuf := drop (hdr_size hdr) (rdBuf c1)\<rparr>, Deliver reqID (rseq, take (hdr_size hdr) (rdBuf c1)))
        else (c1\<lparr>rdBuf := drop (hdr_size hdr) (rdBuf c1)\<rparr>, ReadErr UnexpectedAnswer))"
  using assms
  by (simp add: readReply_def ReadFull_def GetUInt32_def GetUInt16_def Let_def split_def
      hdr_magic_def hdr_version_def hdr_size_def hdr_rseq_def after_hdr_def cprotoHdrLen_def)

lemma seqNumIsValid_iff: "seqNumIsValid q \<longleftrightarrow> q < maxSeqNum"
  by (simp add: seqNumIsValid_def)

lemma readLoop_iter_ReadErr:
  "snd (readReply c) = ReadErr e \<Longrightarrow>
   readLoop_iter c = (onError (fst (readReply c)) e, ReaderReturned)"
  by (cases "readReply c") (simp add: readLoop_iter_def)

lemma err_onError: "err (onError c e) \<noteq> None"
  by (cases "conn c") (auto simp add: onError_def Let_def)

lemma err_readReply: "err (fst (readReply c)) = err c"
  by (cases "cprotoHdrLen \<le> length (rdBuf c)")
     (simp_all add: readReply_hdr readReply_short Let_def after_hdr_def)

lemmas eval_readReply =
  readReply_def ReadFull_def GetUInt32_def GetUInt16_def cprotoHdrLen_def cprotoMagic_def
  cprotoMinCompatVersion_def seqNumIsValid_def maxSeqNum_val reqID_of_def queueSize_def
  emptyConnection_def hdr_magic_def hdr_version_def hdr_rseq_def hdr_size_def
  readLoop_iter_def onError_def

text \<open>
  C6. Once the 16 bytes of a header are read, \<open>readReply\<close> fails with one of its three
  header errors if and only if the magic differs from 0xEEDD1132, or the version is below
  0x101, or the sequence is not below \<open>maxSeqNum\<close>. The magic is checked first, then
  the version, then the sequence, so a header that passes all three is not rejected: where the
  slot has its reply channel, the only error left is the end of the stream inside the
  payload. Every
  error of \<open>readReply\<close> ends \<open>readLoop\<close> through \<open>onError\<close>: the connection
  has an error afterwards, and if it had none before, it has this one and its failure
  channel is closed.
\<close>

theorem readReply_header_rejected:
  assumes "cprotoHdrLen \<le> length (rdBuf c)" and "hdr = take cprotoHdrLen (rdBuf c)"
  shows "cprotoMagic = 0xEEDD1132 \<and> cprotoMinCompatVersion = 0x101
    \<and> ((\<exists>e. snd (readReply c) = ReadErr e \<and> header_error e) \<longleftrightarrow>
         (hdr_magic hdr \<noteq> cprotoMagic \<or> hdr_version hdr < cprotoMinCompatVersion
            \<or> \<not> hdr_rseq hdr < maxSeqNum))
    \<and> (hdr_magic hdr \<noteq> cprotoMagic \<longrightarrow>
          snd (readReply c) = ReadErr (InvalidMagic (hdr_magic hdr)))
    \<and> (hdr_magic hdr = cprotoMagic \<longrightarrow> hdr_version hdr < cprotoMinCompatVersion \<longrightarrow>
          snd (readReply c) = ReadErr (UnsupportedVersion (hdr_version hdr)))
    \<and> (hdr_magic hdr = cprotoMagic \<longrightarrow> \<not> hdr_version hdr < cprotoMinCompatVersion \<longrightarrow>
          \<not> hdr_rseq hdr < maxSeqNum \<longrightarrow>
          snd (readReply c) = ReadErr (InvalidSeqNum (hdr_rseq hdr)))
    \<and> (hdr_magic hdr = cprotoMagic \<longrightarrow> \<not> hdr_version hdr < cprotoMinCompatVersion \<longrightarrow>
          hdr_rseq hdr < maxSeqNum \<longrightarrow> repl (requests c ! reqID_of (hdr_rseq hdr)) \<noteq> NilChan \<longrightarrow>
          (\<forall>e. snd (readReply c) = ReadErr e \<longrightarrow> e = EOF \<or> e = ErrUnexpectedEOF))
    \<and> (\<forall>e. snd (readReply c) = ReadErr e \<longrightarrow>
          snd (readLoop_iter c) = ReaderReturned \<and> hasError (fst (readLoop_iter c))
          \<and> (err c = None \<longrightarrow> err (fst (readLoop_iter c)) = Some e \<and> errCh (fst (readLoop_iter c))))"
proof -
  have cv: "cprotoMagic = 0xEEDD1132 \<and> cprotoMinCompatVersion = 0x101"
    by (simp add: cprotoMagic_def cprotoMinCompatVersion_def)
  have iff: "(\<exists>e. snd (readReply c) = ReadErr e \<and> header_error e) \<longleftrightarrow>
         (hdr_magic hdr \<noteq> cprotoMagic \<or> hdr_version hdr < cprotoMinCompatVersion
            \<or> \<not> hdr_rseq hdr < maxSeqNum)"
    using assms by (auto simp add: readReply_hdr Let_def seqNumIsValid_iff split: if_splits)
  have m: "hdr_magic hdr \<noteq> cprotoMagic \<longrightarrow>
          snd (readReply c) = ReadErr (InvalidMagic (hdr_magic hdr))"
    using assms by (simp add: readReply_hdr Let_def)
  have v: "hdr_magic hdr = cprotoMagic \<longrightarrow> hdr_version hdr < cprotoMinCompatVersion \<longrightarrow>
          snd (readReply c) = ReadErr (UnsupportedVersion (hdr_version hdr))"
    using assms by (simp add: readReply_hdr Let_def)
  have q: "hdr_magic hdr = cprotoMagic \<longrightarrow> \<not> hdr_version hdr < cprotoMinCompatVersion \<longrightarrow>
          \<not> hdr_rseq hdr < maxSeqNum \<longrightarrow>
          snd (readReply c) = ReadErr (InvalidSeqNum (hdr_rseq hdr))"
    using assms by (simp add: readReply_hdr Let_def seqNumIsValid_iff)
  have pass: "hdr_magic hdr = cprotoMagic \<longrightarrow> \<not> hdr_version hdr < cprotoMinCompatVersion \<longrightarrow>
          hdr_rseq hdr < maxSeqNum \<longrightarrow> repl (requests c ! reqID_of (hdr_rseq hdr)) \<noteq> NilChan \<longrightarrow>
          (\<forall>e. snd (readReply c) = ReadErr e \<longrightarrow> e = EOF \<or> e = ErrUnexpectedEOF)"
    using assms by (auto simp add: readReply_hdr Let_def seqNumIsValid_iff split: if_splits)
  have fatal: "\<forall>e. snd (readReply c) = ReadErr e \<longrightarrow>
          snd (readLoop_iter c) = ReaderReturned \<and> hasError (fst (readLoop_iter c))
          \<and> (err c = None \<longrightarrow> err (fst (readLoop_iter c)) = Some e \<and> errCh (fst (readLoop_iter c)))"
  proof (intro allI impI)
    fix e
    assume r: "snd (readReply c) = ReadErr e"
    have l: "readLoop_iter c = (onError (fst (readReply c)) e, ReaderReturned)"
      using r by (rule readLoop_iter_ReadErr)
    have "err c = None \<longrightarrow> err (onError (fst (readReply c)) e) = Some e \<and> errCh (onError (fst (readReply c)) e)"
      using err_readReply [of c] by (simp add: onError_first)
    then show "snd (readLoop_iter c) = ReaderReturned \<and> hasError (fst (readLoop_iter c))
          \<and> (err c = None \<longrightarrow> err (fst (readLoop_iter c)) = Some e \<and> errCh (fst (readLoop_iter c)))"
      using l err_onError by (simp add: hasError_def)
  qed
  show ?thesis
    using cv iff m v q pass fatal by blast
qed

theorem readReply_header_rejected_witness:
  "cprotoHdrLen \<le> length (rdBuf (emptyConnection\<lparr>rdBuf := hdr_bad_magic\<rparr>))
   \<and> hdr_magic hdr_bad_magic \<noteq> cprotoMagic
   \<and> snd (readReply (emptyConnection\<lparr>rdBuf := hdr_bad_magic\<rparr>)) = ReadErr (InvalidMagic 0)
   \<and> err (emptyConnection\<lparr>rdBuf := hdr_bad_magic\<rparr>) = None
   \<and> snd (readLoop_iter (emptyConnection\<lparr>rdBuf := hdr_bad_magic\<rparr>)) = ReaderReturned
   \<and> err (fst (readLoop_iter (emptyConnection\<lparr>rdBuf := hdr_bad_magic\<rparr>))) = Some (InvalidMagic 0)
   \<and> errCh (fst (readLoop_iter (emptyConnection\<lparr>rdBuf := hdr_bad_magic\<rparr>)))
   \<and> hdr_magic hdr_old_version = cprotoMagic
   \<and> hdr_version hdr_old_version < cprotoMinCompatVersion
   \<and> snd (readReply (emptyConnection\<lparr>rdBuf := hdr_old_version\<rparr>)) = ReadErr (UnsupportedVersion 0x100)
   \<and> hdr_magic hdr_bad_seq = cprotoMagic
   \<and> \<not> hdr_version hdr_bad_seq < cprotoMinCompatVersion
   \<and> \<not> hdr_rseq hdr_bad_seq < maxSeqNum
   \<and> snd (readReply (emptyConnection\<lparr>rdBuf := hdr_bad_seq\<rparr>)) = ReadErr (InvalidSeqNum 400000000)
   \<and> hdr_magic hdr_seq0_size0 = cprotoMagic
   \<and> \<not> hdr_version hdr_seq0_size0 < cprotoMinCompatVersion
   \<and> hdr_rseq hdr_seq0_size0 < maxSeqNum
   \<and> repl (requests ((initSlots 0 emptyConnection)\<lparr>rdBuf := hdr_seq0_size0\<rparr>)
         ! reqID_of (hdr_rseq hdr_seq0_size0)) \<noteq> NilChan
   \<and> snd (readReply ((initSlots 0 emptyConnection)\<lparr>rdBuf := hdr_seq0_size0\<rparr>)) = Deliver 0 (0, [])"
proof -
  have e:
    "cprotoHdrLen \<le> length (rdBuf (emptyConnection\<lparr>rdBuf := hdr_bad_magic\<rparr>))
     \<and> hdr_magic hdr_bad_magic \<noteq> cprotoMagic
     \<and> snd (readReply (emptyConnection\<lparr>rdBuf := hdr_bad_magic\<rparr>)) = ReadErr (InvalidMagic 0)
     \<and> err (emptyConnection\<lparr>rdBuf := hdr_bad_magic\<rparr>) = None
     \<and> snd (readLoop_iter (emptyConnection\<lparr>rdBuf := hdr_bad_magic\<rparr>)) = ReaderReturned
     \<and> err (fst (readLoop_iter (emptyConnection\<lparr>rdBuf := hdr_bad_magic\<rparr>))) = Some (InvalidMagic 0)
     \<and> errCh (fst (readLoop_iter (emptyConnection\<lparr>rdBuf := hdr_bad_magic\<rparr>)))
     \<and> hdr_magic hdr_old_version = cprotoMagic
     \<and> hdr_version hdr_old_version < cprotoMinCompatVersion
     \<and> snd (readReply (emptyConnection\<lparr>rdBuf := hdr_old_version\<rparr>)) = ReadErr (UnsupportedVersion 0x100)
     \<and> hdr_magic hdr_bad_seq = cprotoMagic
     \<and> \<not> hdr_version hdr_bad_seq < cprotoMinCompatVersion
     \<and> \<not> hdr_rseq hdr_bad_seq < maxSeqNum
     \<and> snd (readReply (emptyConnection\<lparr>rdBuf := hdr_bad_seq\<rparr>)) = ReadErr (InvalidSeqNum 400000000)
     \<and> hdr_magic hdr_seq0_size0 = cprotoMagic
     \<and> \<not> hdr_version hdr_seq0_size0 < cprotoMinCompatVersion
     \<and> hdr_rseq hdr_seq0_size0 < maxSeqNum
     \<and> repl (requests ((initSlots 0 emptyConnection)\<lparr>rdBuf := hdr_seq0_size0\<rparr>)
           ! reqID_of (hdr_rseq hdr_seq0_size0)) \<noteq> NilChan
     \<and> snd (readReply ((initSlots 0 emptyConnection)\<lparr>rdBuf := hdr_seq0_size0\<rparr>)) = Deliver 0 (0, [])"
    by (simp add: eval_readReply hdr_bad_magic_def hdr_old_version_def hdr_bad_seq_def
        hdr_seq0_size0_def initSlots.simps)
  show ?thesis
    using readReply_header_rejected [of "emptyConnection\<lparr>rdBuf := hdr_bad_magic\<rparr>" hdr_bad_magic]
      readReply_header_rejected [of "emptyConnection\<lparr>rdBuf := hdr_old_version\<rparr>" hdr_old_version]
      readReply_header_rejected [of "emptyConnection\<lparr>rdBuf := hdr_bad_seq\<rparr>" hdr_bad_seq]
    readReply_header_rejected [of "(initSlots 0 emptyConnection)\<lparr>rdBuf := hdr_seq0_size0\<rparr>"
      hdr_seq0_size0]
    by - (rule e)
qed

text \<open>
  C5, as the claim states it, fails on a stream that ends inside the payload: the header
  below passes the three checks, its sequence 40 is not the sequence of slot 0, it
  announces five bytes, and \<open>readReply\<close> returns no error after consuming the two
  bytes that were left.
\<close>

theorem readReply_drain_counterexample:
  "cprotoHdrLen \<le> length frame_seq40_size5_cut
   \<and> hdr_magic (take cprotoHdrLen frame_seq40_size5_cut) = cprotoMagic
   \<and> \<not> hdr_version (take cprotoHdrLen frame_seq40_size5_cut) < cprotoMinCompatVersion
   \<and> hdr_rseq (take cprotoHdrLen frame_seq40_size5_cut) = 40
   \<and> seqNumIsValid 40
   \<and> seqNum (requests emptyConnection ! reqID_of 40) = 0
   \<and> hdr_size (take cprotoHdrLen frame_seq40_size5_cut) = 5
   \<and> readReply (emptyConnection\<lparr>rdBuf := frame_seq40_size5_cut\<rparr>)
       = (emptyConnection\<lparr>rdBuf := []\<rparr>, Discarded)
   \<and> length frame_seq40_size5_cut - cprotoHdrLen = 2"
  by (simp add: eval_readReply frame_seq40_size5_cut_def)

text \<open>
  C5, amended. When the header passes the magic, version and sequence checks and its
  sequence is not the current sequence of its slot, \<open>readReply\<close> consumes the header
  and the payload bytes that follow, as many as the header announces or all that are left
  when the stream ends earlier (the error of the drain is not looked at). It sends nothing
  on a reply channel, returns no error, and changes nothing else of the connection; the
  read loop goes on. When the announced bytes are all there, exactly that many are
  consumed.
\<close>

theorem readReply_stale_discarded:
  assumes "cprotoHdrLen \<le> length (rdBuf c)" and "hdr = take cprotoHdrLen (rdBuf c)"
    and "hdr_magic hdr = cprotoMagic" and "\<not> hdr_version hdr < cprotoMinCompatVersion"
    and "seqNumIsValid (hdr_rseq hdr)"
    and "seqNum (requests c ! reqID_of (hdr_rseq hdr)) \<noteq> hdr_rseq hdr"
  shows "readReply c = (c\<lparr>rdBuf := drop (cprotoHdrLen + hdr_size hdr) (rdBuf c)\<rparr>, Discarded)
    \<and> readLoop_iter c = (c\<lparr>rdBuf := drop (cprotoHdrLen + hdr_size hdr) (rdBuf c)\<rparr>, ReaderIdle)
    \<and> length (rdBuf c) - length (rdBuf (fst (readReply c)))
         = cprotoHdrLen + min (hdr_size hdr) (length (rdBuf c) - cprotoHdrLen)
    \<and> (cprotoHdrLen + hdr_size hdr \<le> length (rdBuf c) \<longrightarrow>
         length (rdBuf c) - length (rdBuf (fst (readReply c))) = cprotoHdrLen + hdr_size hdr)"
proof -
  have r: "readReply c = (c\<lparr>rdBuf := drop (cprotoHdrLen + hdr_size hdr) (rdBuf c)\<rparr>, Discarded)"
    using assms by (simp add: readReply_hdr Let_def after_hdr_def add.commute)
  then have l: "readLoop_iter c = (c\<lparr>rdBuf := drop (cprotoHdrLen + hdr_size hdr) (rdBuf c)\<rparr>, ReaderIdle)"
    by (simp add: readLoop_iter_def)
  have n: "length (rdBuf c) - length (rdBuf (fst (readReply c)))
         = cprotoHdrLen + min (hdr_size hdr) (length (rdBuf c) - cprotoHdrLen)"
    using r assms(1) by auto
  show ?thesis
    using r l n by auto
qed

theorem readReply_stale_discarded_witness:
  "cprotoHdrLen \<le> length (rdBuf (emptyConnection\<lparr>rdBuf := frame_seq40_size2\<rparr>))
   \<and> hdr_magic (take cprotoHdrLen frame_seq40_size2) = cprotoMagic
   \<and> \<not> hdr_version (take cprotoHdrLen frame_seq40_size2) < cprotoMinCompatVersion
   \<and> seqNumIsValid (hdr_rseq (take cprotoHdrLen frame_seq40_size2))
   \<and> seqNum (requests (emptyConnection\<lparr>rdBuf := frame_seq40_size2\<rparr>)
        ! reqID_of (hdr_rseq (take cprotoHdrLen frame_seq40_size2)))
       \<noteq> hdr_rseq (take cprotoHdrLen frame_seq40_size2)
   \<and> hdr_size (take cprotoHdrLen frame_seq40_size2) = 2
   \<and> cprotoHdrLen + 2 \<le> length frame_seq40_size2
   \<and> readReply (emptyConnection\<lparr>rdBuf := frame_seq40_size2\<rparr>)
       = (emptyConnection\<lparr>rdBuf := []\<rparr>, Discarded)
   \<and> readLoop_iter (emptyConnection\<lparr>rdBuf := frame_seq40_size2\<rparr>)
       = (emptyConnection\<lparr>rdBuf := []\<rparr>, ReaderIdle)"
proof -
  have e:
    "cprotoHdrLen \<le> length (rdBuf (emptyConnection\<lparr>rdBuf := frame_seq40_size2\<rparr>))
     \<and> hdr_magic (take cprotoHdrLen frame_seq40_size2) = cprotoMagic
     \<and> \<not> hdr_version (take cprotoHdrLen frame_seq40_size2) < cprotoMinCompatVersion
     \<and> seqNumIsValid (hdr_rseq (take cprotoHdrLen frame_seq40_size2))
     \<and> seqNum (requests (emptyConnection\<lparr>rdBuf := frame_seq40_size2\<rparr>)
          ! reqID_of (hdr_rseq (take cprotoHdrLen frame_seq40_size2)))
         \<noteq> hdr_rseq (take cprotoHdrLen frame_seq40_size2)
     \<and> hdr_size (take cprotoHdrLen frame_seq40_size2) = 2
     \<and> cprotoHdrLen + 2 \<le> length frame_seq40_size2
     \<and> readReply (emptyConnection\<lparr>rdBuf := frame_seq40_size2\<rparr>)
         = (emptyConnection\<lparr>rdBuf := []\<rparr>, Discarded)
     \<and> readLoop_iter (emptyConnection\<lparr>rdBuf := frame_seq40_size2\<rparr>)
         = (emptyConnection\<lparr>rdBuf := []\<rparr>, ReaderIdle)"
    by (simp add: eval_readReply frame_seq40_size2_def)
  show ?thesis
    using readReply_stale_discarded [of "emptyConnection\<lparr>rdBuf := frame_seq40_size2\<rparr>"
        "take cprotoHdrLen frame_seq40_size2"]
    by - (rule e)
qed

subsection \<open>Idle slots\<close>

lemma maxSeqNum_invalid: "\<not> seqNumIsValid maxSeqNum"
  by (simp add: seqNumIsValid_def)

lemma idle_same_seqNums:
  "map seqNum (requests c') = map seqNum (requests c) \<Longrightarrow> idle c i \<Longrightarrow> idle c' i"
proof -
  assume m: "map seqNum (requests c') = map seqNum (requests c)" and i: "idle c i"
  from m have l: "length (requests c') = length (requests c)"
    by (metis length_map)
  from i have lt: "i < length (requests c)" by (simp add: idle_def)
  have "seqNum (requests c' ! i) = map seqNum (requests c') ! i"
    using lt l by simp
  also have "\<dots> = seqNum (requests c ! i)"
    using m lt by simp
  finally show ?thesis using i l by (simp add: idle_def)
qed

lemma map_update_same: "(map f xs)[j := f (xs ! j)] = map f xs"
  by (cases "j < length xs") (simp_all add: list_update_same_conv list_update_beyond)

lemma seqNums_setDeadline:
  "map seqNum (requests (setDeadline j v c)) = map seqNum (requests c)"
  by (simp add: setDeadline_def map_update map_update_same)

lemma seqNums_scan:
  "map seqNum (requests (fst (deadlineTicker_scan nw c j))) = map seqNum (requests c)"
proof (induction nw c j rule: deadlineTicker_scan.induct)
  case (1 nw c i)
  show ?case
    using "1.IH" 
    by (subst deadlineTicker_scan.simps) (simp add: Let_def seqNums_setDeadline)
qed

lemma seqNums_scan_state:
  "map seqNum (requests (fst (scan_state nw (deadlineTicker_scan nw c j)))) = map seqNum (requests c)"
  using seqNums_scan [of nw c j]
  by (cases "deadlineTicker_scan nw c j") (auto simp add: scan_state_def split: option.splits)

lemma seqNums_iter:
  "map seqNum (requests (fst (deadlineTicker_iter c))) = map seqNum (requests c)"
  using seqNums_scan_state [of "now c + deadlineCheckPeriodSec" "c\<lparr>now := now c + deadlineCheckPeriodSec\<rparr>" 0]
  by (simp add: deadlineTicker_iter_def Let_def)

lemma requests_onError: "requests (onError c e) = requests c"
  by (cases "conn c") (auto simp add: onError_def Let_def)

lemma requests_readReply: "requests (fst (readReply c)) = requests c"
  by (cases "cprotoHdrLen \<le> length (rdBuf c)")
     (simp_all add: readReply_hdr readReply_short Let_def after_hdr_def)

lemma requests_readLoop_iter: "requests (fst (readLoop_iter c)) = requests c"
  using requests_readReply [of c]
  by (cases "readReply c") (auto simp add: readLoop_iter_def requests_onError split: read_outcome.splits)

lemma readReply_Deliver:
  "snd (readReply c) = Deliver j bp \<Longrightarrow>
   j = reqID_of (fst bp) \<and> seqNum (requests c ! j) = fst bp \<and> seqNumIsValid (fst bp)"
  by (cases "cprotoHdrLen \<le> length (rdBuf c)")
     (auto simp add: readReply_hdr readReply_short Let_def split: if_splits)

lemma idle_no_Deliver: "idle c i \<Longrightarrow> snd (readReply c) \<noteq> Deliver i bp"
  using readReply_Deliver [of c i bp] maxSeqNum_invalid by (auto simp add: idle_def)

lemma requests_finish:
  "rpcCall_finish parseArgs c seq buf er = Some (c', res) \<Longrightarrow>
   requests c' = (requests c)[reqID_of seq := (requests c ! reqID_of seq)\<lparr>seqNum := maxSeqNum\<rparr>]"
  by (cases er; cases buf)
     (auto simp add: rpcCall_finish_def setSeqNum_def Let_def split: if_splits)

lemma idle_finish:
  "rpcCall_finish parseArgs c seq buf er = Some (c', res) \<Longrightarrow> idle c i \<Longrightarrow> idle c' i"
  by (cases "reqID_of seq = i") (auto simp add: requests_finish idle_def)

lemma finish_resets:
  "rpcCall_finish parseArgs c seq buf er = Some (c', res) \<Longrightarrow> queueSize \<le> length (requests c) \<Longrightarrow>
   idle c' (reqID_of seq)"
  using reqID_of_less [of seq] by (auto simp add: requests_finish idle_def)

lemma idle_begin:
  "rpcCall_begin c ctx cmd nt args = Some (c', st) \<Longrightarrow> idle c i \<Longrightarrow>
   (\<forall>seq rest. seqs c = seq # rest \<longrightarrow> reqID_of seq \<noteq> i) \<Longrightarrow> idle c' i"
  by (cases "seqs c")
     (auto simp add: rpcCall_begin_def Let_def idle_def setSeqNum_def setDeadline_def
        connection_write_def split: if_splits)

lemma idle_login_returned: "idle (login_returned c er) i = idle c i"
  by (cases er) (simp_all add: login_returned_def idle_def requests_onError)

lemma idle_resolve:
  "resolve parseArgs s seq ev = Some s' \<Longrightarrow> idle (con s) i \<Longrightarrow>
   idle (con s') i \<and> reader s' = reader s"
  by (auto simp add: resolve_def idle_finish idle_login_returned
      split: option.splits sel_result.splits)

lemma exec_Call:
  "exec parseArgs (Call ctx cmd nt args) s = Some s' \<Longrightarrow>
   \<exists>c' st. rpcCall_begin (con s) ctx cmd nt args = Some (c', st) \<and> con s' = c' \<and> reader s' = reader s"
  by (auto split: option.splits call_state.splits)

lemma idle_exec:
  assumes "exec parseArgs a s = Some s'" and "idle (con s) i" and "\<not> acquires a s i"
  shows "idle (con s') i \<and> (\<forall>bp. reader s' = ReaderSending i bp \<longrightarrow> reader s = ReaderSending i bp)"
proof (cases a)
  case (Call ctx cmd nt args)
  with assms(1) obtain c' st where
    b: "rpcCall_begin (con s) ctx cmd nt args = Some (c', st)" and c: "con s' = c'"
    and r: "reader s' = reader s"
    using exec_Call by blast
  have "\<forall>seq rest. seqs (con s) = seq # rest \<longrightarrow> reqID_of seq \<noteq> i"
    using assms(3) Call by (auto simp add: acquires_def)
  with b assms(2) have "idle c' i"
    by (rule idle_begin)
  then show ?thesis
    using c r by simp
next
  case Tick
  with assms(1) have "con s' = fst (deadlineTicker_iter (con s)) \<and> reader s' = reader s"
    by (auto simp add: Let_def split_def split: ticker_state.splits)
  then show ?thesis
    using assms(2) seqNums_iter [of "con s"] idle_same_seqNums by auto
next
  case (TakeTimeout seq)
  with assms(1) obtain s1 j sn nw where
    r: "resolve parseArgs s seq (RecvTimeout sn) = Some s1"
    and c: "con s' = fst (scan_state nw (deadlineTicker_scan nw (con s1) (Suc j)))"
    and rd: "reader s' = reader s1"
    by (auto simp add: Let_def split_def split: ticker_state.splits if_splits option.splits)
  from r assms(2) have "idle (con s1) i \<and> reader s1 = reader s"
    by (rule idle_resolve)
  then show ?thesis
    using c rd seqNums_scan_state idle_same_seqNums by auto
next
  case Read
  with assms(1) have c: "con s' = fst (readLoop_iter (con s))"
    and rd: "reader s' = snd (readLoop_iter (con s))"
    by (auto simp add: Let_def split_def split: reader_state.splits)
  have "idle (con s') i"
    using c assms(2) requests_readLoop_iter [of "con s"] by (simp add: idle_def)
  moreover have "reader s' \<noteq> ReaderSending i bp" for bp
    using rd idle_no_Deliver [OF assms(2), of bp]
    by (cases "readReply (con s)") (auto simp add: readLoop_iter_def split: read_outcome.splits)
  ultimately show ?thesis by simp
next
  case (TakeReply seq)
  with assms(1) obtain s1 bp where
    r: "resolve parseArgs s seq (RecvReply bp) = Some s1"
    and c: "con s' = con s1" and rd: "reader s' = ReaderIdle"
    by (auto split: reader_state.splits if_splits option.splits)
  from r assms(2) have "idle (con s1) i \<and> reader s1 = reader s"
    by (rule idle_resolve)
  then show ?thesis
    using c rd by simp
next
  case (TakeErr seq)
  with assms(1) have "resolve parseArgs s seq RecvErrCh = Some s'"
    by simp
  then show ?thesis
    using assms(2) idle_resolve by auto
next
  case Terminate
  then show ?thesis
    using assms by (auto simp add: Finalize_def idle_def split: if_splits)
qed

lemma idle_run:
  "run parseArgs as s = Some s' \<Longrightarrow> idle (con s) i \<Longrightarrow> quiet parseArgs as s i \<Longrightarrow>
   idle (con s') i \<and> (\<forall>bp. reader s' = ReaderSending i bp \<longrightarrow> reader s = ReaderSending i bp)"
proof (induction as arbitrary: s)
  case Nil
  then show ?case by simp
next
  case (Cons a as)
  from Cons.prems(1) obtain s1 where
    e: "exec parseArgs a s = Some s1" and r: "run parseArgs as s1 = Some s'"
    by (auto split: option.splits)
  from Cons.prems(3) e have na: "\<not> acquires a s i" and q: "quiet parseArgs as s1 i"
    by simp_all
  from e Cons.prems(2) na
  have i1: "idle (con s1) i \<and> (\<forall>bp. reader s1 = ReaderSending i bp \<longrightarrow> reader s = ReaderSending i bp)"
    by (rule idle_exec)
  with Cons.IH [OF r _ q]
  show ?case by blast
qed

text \<open>
  C10. The sentinel \<open>maxSeqNum\<close> is not a valid sequence number. So while the sequence
  field of slot \<open>i\<close> holds it, no call of \<open>readReply\<close> ends with a send on the reply
  channel of slot \<open>i\<close>. The code after the loop of a call stores the sentinel in the
  call's slot, and every step of the system other than a call that acquires a sequence of
  slot \<open>i\<close> keeps the sentinel there and does not make the reader start a send on that
  slot's reply channel; hence so does every schedule up to the next acquisition of a
  sequence of the slot.
\<close>

theorem idle_slot_never_delivered:
  "\<not> seqNumIsValid maxSeqNum
   \<and> (idle c i \<longrightarrow> (\<forall>bp. snd (readReply c) \<noteq> Deliver i bp))
   \<and> (rpcCall_finish parseArgs c seq buf er = Some (c', res) \<longrightarrow> queueSize \<le> length (requests c) \<longrightarrow>
        idle c' (reqID_of seq))
   \<and> (idle (con s) i \<longrightarrow> \<not> acquires a s i \<longrightarrow> exec parseArgs a s = Some s' \<longrightarrow>
        idle (con s') i
        \<and> (\<forall>bp. reader s' = ReaderSending i bp \<longrightarrow> reader s = ReaderSending i bp))
   \<and> (idle (con s) i \<longrightarrow> quiet parseArgs as s i \<longrightarrow> run parseArgs as s = Some s2 \<longrightarrow>
        idle (con s2) i
        \<and> (\<forall>bp. reader s2 = ReaderSending i bp \<longrightarrow> reader s = ReaderSending i bp))"
  using maxSeqNum_invalid idle_no_Deliver [of c i]
    finish_resets [of parseArgs c seq buf er c' res] idle_exec [of parseArgs a s s' i]
    idle_run [of parseArgs as s s2 i]
  by blast

theorem idle_slot_never_delivered_witness:
  "idle (setSeqNum 0 maxSeqNum (emptyConnection\<lparr>rdBuf := hdr_seq0_size0\<rparr>)) 0
   \<and> hdr_rseq hdr_seq0_size0 = 0
   \<and> snd (readReply (setSeqNum 0 maxSeqNum (emptyConnection\<lparr>rdBuf := hdr_seq0_size0\<rparr>))) = Discarded
   \<and> queueSize \<le> length (requests (setSeqNum 0 maxSeqNum (emptyConnection\<lparr>rdBuf := hdr_seq0_size0\<rparr>)))
   \<and> map_option (\<lambda>r. idle (fst r) (reqID_of 41))
        (rpcCall_finish (\<lambda>b. None)
          (setSeqNum 0 maxSeqNum (emptyConnection\<lparr>rdBuf := hdr_seq0_size0\<rparr>)) 41 None (Some EOF))
       = Some True
   \<and> \<not> acquires Read
        \<lparr>con = setSeqNum 0 maxSeqNum (emptyConnection\<lparr>rdBuf := hdr_seq0_size0\<rparr>),
         ticker = TickerIdle, reader = ReaderIdle, waiters = [], finished = [], login = None\<rparr> 0
   \<and> map_option (\<lambda>s. idle (con s) 0 \<and> reader s = ReaderIdle)
        (exec (\<lambda>b. None) Read
          \<lparr>con = setSeqNum 0 maxSeqNum (emptyConnection\<lparr>rdBuf := hdr_seq0_size0\<rparr>),
           ticker = TickerIdle, reader = ReaderIdle, waiters = [], finished = [], login = None\<rparr>) = Some True
   \<and> quiet (\<lambda>b. None) [Read, Tick]
        \<lparr>con = setSeqNum 0 maxSeqNum (emptyConnection\<lparr>rdBuf := hdr_seq0_size0\<rparr>),
         ticker = TickerIdle, reader = ReaderIdle, waiters = [], finished = [], login = None\<rparr> 0
   \<and> map_option (\<lambda>s. idle (con s) 0 \<and> reader s = ReaderIdle \<and> now (con s) = 1)
        (run (\<lambda>b. None) [Read, Tick]
          \<lparr>con = setSeqNum 0 maxSeqNum (emptyConnection\<lparr>rdBuf := hdr_seq0_size0\<rparr>),
           ticker = TickerIdle, reader = ReaderIdle, waiters = [], finished = [], login = None\<rparr>) = Some True"
proof -
  have e:
    "idle (setSeqNum 0 maxSeqNum (emptyConnection\<lparr>rdBuf := hdr_seq0_size0\<rparr>)) 0
     \<and> hdr_rseq hdr_seq0_size0 = 0
     \<and> snd (readReply (setSeqNum 0 maxSeqNum (emptyConnection\<lparr>rdBuf := hdr_seq0_size0\<rparr>))) = Discarded
     \<and> queueSize \<le> length (requests (setSeqNum 0 maxSeqNum (emptyConnection\<lparr>rdBuf := hdr_seq0_size0\<rparr>)))
     \<and> map_option (\<lambda>r. idle (fst r) (reqID_of 41))
          (rpcCall_finish (\<lambda>b. None)
            (setSeqNum 0 maxSeqNum (emptyConnection\<lparr>rdBuf := hdr_seq0_size0\<rparr>)) 41 None (Some EOF))
         = Some True
     \<and> \<not> acquires Read
          \<lparr>con = setSeqNum 0 maxSeqNum (emptyConnection\<lparr>rdBuf := hdr_seq0_size0\<rparr>),
           ticker = TickerIdle, reader = ReaderIdle, waiters = [], finished = [], login = None\<rparr> 0
     \<and> map_option (\<lambda>s. idle (con s) 0 \<and> reader s = ReaderIdle)
          (exec (\<lambda>b. None) Read
            \<lparr>con = setSeqNum 0 maxSeqNum (emptyConnection\<lparr>rdBuf := hdr_seq0_size0\<rparr>),
             ticker = TickerIdle, reader = ReaderIdle, waiters = [], finished = [], login = None\<rparr>) = Some True
     \<and> quiet (\<lambda>b. None) [Read, Tick]
          \<lparr>con = setSeqNum 0 maxSeqNum (emptyConnection\<lparr>rdBuf := hdr_seq0_size0\<rparr>),
           ticker = TickerIdle, reader = ReaderIdle, waiters = [], finished = [], login = None\<rparr> 0
     \<and> map_option (\<lambda>s. idle (con s) 0 \<and> reader s = ReaderIdle \<and> now (con s) = 1)
          (run (\<lambda>b. None) [Read, Tick]
            \<lparr>con = setSeqNum 0 maxSeqNum (emptyConnection\<lparr>rdBuf := hdr_seq0_size0\<rparr>),
             ticker = TickerIdle, reader = ReaderIdle, waiters = [], finished = [], login = None\<rparr>) = Some True"
    by code_simp
  show ?thesis
    using idle_slot_never_delivered
      [where c = "setSeqNum 0 maxSeqNum (emptyConnection\<lparr>rdBuf := hdr_seq0_size0\<rparr>)"
        and i = 0 and parseArgs = "\<lambda>b. None" and seq = 41 and buf = None and er = "Some EOF"
        and c' = "fst (the (rpcCall_finish (\<lambda>b. None)
            (setSeqNum 0 maxSeqNum (emptyConnection\<lparr>rdBuf := hdr_seq0_size0\<rparr>)) 41 None (Some EOF)))"
        and res = "snd (the (rpcCall_finish (\<lambda>b. None)
            (setSeqNum 0 maxSeqNum (emptyConnection\<lparr>rdBuf := hdr_seq0_size0\<rparr>)) 41 None (Some EOF)))"
        and s = "\<lparr>con = setSeqNum 0 maxSeqNum (emptyConnection\<lparr>rdBuf := hdr_seq0_size0\<rparr>),
          ticker = TickerIdle, reader = ReaderIdle, waiters = [], finished = [], login = None\<rparr>"
        and a = Read
        and s' = "the (exec (\<lambda>b. None) Read
          \<lparr>con = setSeqNum 0 maxSeqNum (emptyConnection\<lparr>rdBuf := hdr_seq0_size0\<rparr>),
           ticker = TickerIdle, reader = ReaderIdle, waiters = [], finished = [], login = None\<rparr>)"
        and as = "[Read, Tick]"
        and ?s2.0 = "the (run (\<lambda>b. None) [Read, Tick]
          \<lparr>con = setSeqNum 0 maxSeqNum (emptyConnection\<lparr>rdBuf := hdr_seq0_size0\<rparr>),
           ticker = TickerIdle, reader = ReaderIdle, waiters = [], finished = [], login = None\<rparr>)"]
    by - (rule e)
qed

subsection \<open>Submitting a call\<close>

lemma encodeArgs_supported: "encodeArgs args e = encodeArgs (filter supported args) e"
proof (induction args arbitrary: e)
  case Nil
  show ?case by simp
next
  case (Cons a args)
  show ?case
    using Cons.IH by (cases a) simp_all
qed

lemma rpcCall_begin_blocked: "seqs c = [] \<Longrightarrow> rpcCall_begin c ctx cmd nt args = None"
  by (simp add: rpcCall_begin_def)

lemma rpcCall_begin_expired:
  "seqs c = seq # rest \<Longrightarrow> expired ctx \<Longrightarrow>
   rpcCall_begin c ctx cmd nt args
     = Some (c\<lparr>seqs := rest\<rparr>, Returned seq (BindingsError ''Request was canceled'' ErrCanceled))"
  by (simp add: rpcCall_begin_def expired_def execTimeout_of_def Let_def)

lemma rpcCall_begin_submitted:
  "seqs c = seq # rest \<Longrightarrow> \<not> expired ctx \<Longrightarrow>
   rpcCall_begin c ctx cmd nt args
     = Some (connection_write
               (setSeqNum (reqID_of seq) seq
                 (if nt \<noteq> 0 then setDeadline (reqID_of seq) (now c + nt) (c\<lparr>seqs := rest\<rparr>)
                  else c\<lparr>seqs := rest\<rparr>))
               (frame_of cmd seq args ctx),
             Selecting seq)"
  by (auto simp add: rpcCall_begin_def expired_def execTimeout_of_def frame_of_def Let_def setDeadline_def)

lemma frame_of_supported: "frame_of cmd seq args ctx = frame_of cmd seq (filter supported args) ctx"
  using encodeArgs_supported [of args "newRPCEncoder cmd seq"] by (simp add: frame_of_def)

lemma rpcCall_begin_supported:
  "rpcCall_begin c ctx cmd nt args = rpcCall_begin c ctx cmd nt (filter supported args)"
proof (cases "seqs c")
  case Nil
  then show ?thesis by (simp add: rpcCall_begin_blocked)
next
  case (Cons seq rest)
  show ?thesis
  proof (cases "expired ctx")
    case True
    with Cons show ?thesis by (simp add: rpcCall_begin_expired)
  next
    case False
    with Cons show ?thesis
      using frame_of_supported [of cmd seq args ctx] by (simp add: rpcCall_begin_submitted)
  qed
qed

lemma rpcCall_begin_Returned:
  assumes "rpcCall_begin c ctx cmd nt args = Some (c', Returned seq er)"
  shows "er = BindingsError ''Request was canceled'' ErrCanceled \<and> expired ctx"
proof (cases "seqs c")
  case Nil
  with assms show ?thesis by (simp add: rpcCall_begin_blocked)
next
  case (Cons sq rest)
  show ?thesis
  proof (cases "expired ctx")
    case True
    with Cons assms show ?thesis by (simp add: rpcCall_begin_expired)
  next
    case False
    with Cons assms show ?thesis by (simp add: rpcCall_begin_submitted)
  qed
qed

text \<open>
  C1, as the claim states it, fails: a call on the freshly built slot table with one
  argument of an unsupported kind returns no error, enters its \<open>select\<close> loop on
  sequence 0, and has handed a frame to the writer.
\<close>

theorem rpcCall_unsupported_arg_counterexample:
  "\<not> supported (AOther ''float64'')
   \<and> map_option snd (rpcCall_begin (initSlots 0 emptyConnection) None cmdPing 0 [AOther ''float64''])
       = Some (Selecting 0)
   \<and> map_option (wrBuf \<circ> fst) (rpcCall_begin (initSlots 0 emptyConnection) None cmdPing 0 [AOther ''float64''])
       = Some [\<lparr>enc_cmd = 0, enc_seq = 0, enc_items = [EncArgsChunck, EncInt64 0]\<rparr>]"
  by code_simp

text \<open>
  C1, amended. The type switch has no default branch, so an argument of an unsupported
  kind is skipped: the encoder and the whole call behave as on the argument list without
  such values. No error is raised for it; the only error with which \<open>rpcCall\<close> returns
  before its loop is Canceled, for an expired context. A call that acquires a sequence
  under a context that is not expired hands the writer the frame of the supported
  arguments.
\<close>

theorem rpcCall_skips_unsupported:
  "encodeArgs args e = encodeArgs (filter supported args) e
   \<and> rpcCall_begin c ctx cmd nt args = rpcCall_begin c ctx cmd nt (filter supported args)
   \<and> (rpcCall_begin c ctx cmd nt args = Some (c', Returned sq er) \<longrightarrow>
        er = BindingsError ''Request was canceled'' ErrCanceled \<and> expired ctx)
   \<and> (seqs c = seq # rest \<longrightarrow> \<not> expired ctx \<longrightarrow>
        (\<exists>c2. rpcCall_begin c ctx cmd nt args = Some (c2, Selecting seq)
           \<and> wrBuf c2 = wrBuf c @ [frame_of cmd seq (filter supported args) ctx]))"
proof -
  have "seqs c = seq # rest \<longrightarrow> \<not> expired ctx \<longrightarrow>
        (\<exists>c2. rpcCall_begin c ctx cmd nt args = Some (c2, Selecting seq)
           \<and> wrBuf c2 = wrBuf c @ [frame_of cmd seq (filter supported args) ctx])"
    using frame_of_supported [of cmd seq args ctx]
    by (simp add: rpcCall_begin_submitted connection_write_def setSeqNum_def setDeadline_def)
  then show ?thesis
    using encodeArgs_supported rpcCall_begin_supported rpcCall_begin_Returned [of c ctx cmd nt args c' sq er]
    by blast
qed

theorem rpcCall_skips_unsupported_witness:
  "seqs (emptyConnection\<lparr>seqs := [7]\<rparr>) = 7 # []
   \<and> \<not> expired None
   \<and> expired (Some 0)
   \<and> rpcCall_begin (emptyConnection\<lparr>seqs := [7]\<rparr>) (Some 0) cmdPing 0 [AInt 7, AOther ''float64'', AString ''x'']
       = Some (emptyConnection, Returned 7 (BindingsError ''Request was canceled'' ErrCanceled))
   \<and> map_option snd (rpcCall_begin (emptyConnection\<lparr>seqs := [7]\<rparr>) None cmdPing 0
         [AInt 7, AOther ''float64'', AString ''x'']) = Some (Selecting 7)
   \<and> map_option (wrBuf \<circ> fst) (rpcCall_begin (emptyConnection\<lparr>seqs := [7]\<rparr>) None cmdPing 0
         [AInt 7, AOther ''float64'', AString ''x''])
       = Some [\<lparr>enc_cmd = 0, enc_seq = 7,
                 enc_items = [EncInt 7, EncString ''x'', EncArgsChunck, EncInt64 0]\<rparr>]"
proof -
  have e:
    "seqs (emptyConnection\<lparr>seqs := [7]\<rparr>) = 7 # []
     \<and> \<not> expired None
     \<and> expired (Some 0)
     \<and> rpcCall_begin (emptyConnection\<lparr>seqs := [7]\<rparr>) (Some 0) cmdPing 0 [AInt 7, AOther ''float64'', AString ''x'']
         = Some (emptyConnection, Returned 7 (BindingsError ''Request was canceled'' ErrCanceled))
     \<and> map_option snd (rpcCall_begin (emptyConnection\<lparr>seqs := [7]\<rparr>) None cmdPing 0
           [AInt 7, AOther ''float64'', AString ''x'']) = Some (Selecting 7)
     \<and> map_option (wrBuf \<circ> fst) (rpcCall_begin (emptyConnection\<lparr>seqs := [7]\<rparr>) None cmdPing 0
           [AInt 7, AOther ''float64'', AString ''x''])
         = Some [\<lparr>enc_cmd = 0, enc_seq = 7,
                   enc_items = [EncInt 7, EncString ''x'', EncArgsChunck, EncInt64 0]\<rparr>]"
    by (simp add: rpcCall_begin_def expired_def execTimeout_of_def emptyConnection_def Let_def
        setSeqNum_def connection_write_def newRPCEncoder_def emit_def cmdPing_def
        signed_divide_int_def)
  show ?thesis
    using rpcCall_skips_unsupported
      [where args = "[AInt 7, AOther ''float64'', AString ''x'']" and c = "emptyConnection\<lparr>seqs := [7]\<rparr>"
        and ctx = None and seq = 7 and rest = "[]" and cmd = cmdPing and nt = 0]
      rpcCall_skips_unsupported
      [where args = "[AInt 7, AOther ''float64'', AString ''x'']" and c = "emptyConnection\<lparr>seqs := [7]\<rparr>"
        and ctx = "Some 0" and c' = emptyConnection and sq = 7
        and er = "BindingsError ''Request was canceled'' ErrCanceled" and cmd = cmdPing and nt = 0]
    by - (rule e)
qed

text \<open>
  C2. The claim holds on the code except for its last part. A call whose context has
  expired returns Canceled, writes nothing and changes neither the stored error nor the
  failure channel, but it returns before the code that pushes the next sequence: the
  sequence it acquired is gone from the queue and nothing replaces it. Below, the login
  has used sequence 0; one canceled call takes sequence 1 and leaves 2, ..., 40 in the
  queue; forty canceled calls leave the queue empty with no call in flight, and the next
  call blocks.
\<close>

theorem rpcCall_canceled_keeps_sequence:
  "map_option (\<lambda>s. (seqs (con s), waiters s, length (wrBuf (con s)), err (con s), errCh (con s),
                     map (\<lambda>f. (fst f, snd (snd (snd f)))) (finished s)))
     (Option.bind (boot (\<lambda>d. Connected hdr_seq0_size0) 0 0 0 None ''/db'')
        (run (\<lambda>b. None) [Read, TakeReply 0, Call (Some 0) cmdPing 0 []]))
     = Some (map of_nat [2..<41], [], 1, None, False,
             [(0, None), (1, Some (BindingsError ''Request was canceled'' ErrCanceled))])
   \<and> map_option (\<lambda>s. (seqs (con s), waiters s, length (wrBuf (con s)), length (finished s)))
       (Option.bind (boot (\<lambda>d. Connected hdr_seq0_size0) 0 0 0 None ''/db'')
         (run (\<lambda>b. None) ([Read, TakeReply 0] @ replicate 40 (Call (Some 0) cmdPing 0 []))))
     = Some ([], [], 1, 41)
   \<and> Option.bind (boot (\<lambda>d. Connected hdr_seq0_size0) 0 0 0 None ''/db'')
        (run (\<lambda>b. None) ([Read, TakeReply 0] @ replicate 40 (Call (Some 0) cmdPing 0 [])
            @ [Call None cmdPing 0 []]))
     = None"
  by code_simp

subsection \<open>Construction and login\<close>

lemma birth:
  "initSlots 0 emptyConnection
     = emptyConnection\<lparr>seqs := 0 # map of_nat [1..<queueSize], requests := replicate queueSize madeSlot\<rparr>"
  by code_simp

lemma scan_no_deadline:
  "\<forall>r \<in> set (requests c). deadline r = 0 \<Longrightarrow> deadlineTicker_scan nw c i = (c, None)"
proof (induction nw c i rule: deadlineTicker_scan.induct)
  case (1 nw c i)
  show ?case
    using "1.IH" "1.prems"
    by (subst deadlineTicker_scan.simps) (simp add: Let_def)
qed

lemma iter_no_deadline:
  "\<forall>r \<in> set (requests c). deadline r = 0 \<Longrightarrow> \<not> errCh c \<Longrightarrow> \<not> termCh c \<Longrightarrow>
   deadlineTicker_iter c = (c\<lparr>now := now c + 1\<rparr>, TickerIdle)"
  by (simp add: deadlineTicker_iter_def Let_def scan_no_deadline scan_state_def deadlineCheckPeriodSec_def)

lemma ticks_no_deadline:
  "\<forall>r \<in> set (requests c). deadline r = 0 \<Longrightarrow> \<not> errCh c \<Longrightarrow> \<not> termCh c \<Longrightarrow>
   ticks n c = c\<lparr>now := now c + of_nat n\<rparr>"
proof (induction n arbitrary: c)
  case 0
  show ?case by simp
next
  case (Suc n)
  have "ticks (Suc n) c = ticks n (c\<lparr>now := now c + 1\<rparr>)"
    using Suc.prems by (simp add: iter_no_deadline)
  also have "\<dots> = c\<lparr>now := now c + 1\<rparr>\<lparr>now := now (c\<lparr>now := now c + 1\<rparr>) + of_nat n\<rparr>"
    using Suc.prems by (intro Suc.IH) simp_all
  finally show ?case by (simp add: add.assoc add.commute)
qed

lemma ticks_connected:
  "ticks elapsed ((initSlots 0 emptyConnection)\<lparr>conn := Some 0, rdBuf := inp\<rparr>) = connected inp elapsed"
proof -
  have "ticks elapsed ((initSlots 0 emptyConnection)\<lparr>conn := Some 0, rdBuf := inp\<rparr>)
      = (initSlots 0 emptyConnection)\<lparr>conn := Some 0, rdBuf := inp\<rparr>
          \<lparr>now := now ((initSlots 0 emptyConnection)\<lparr>conn := Some 0, rdBuf := inp\<rparr>) + of_nat elapsed\<rparr>"
    by (rule ticks_no_deadline) (unfold birth, simp_all add: emptyConnection_def madeSlot_def)
  then show ?thesis
    unfolding birth by (simp add: connected_def emptyConnection_def)
qed

lemma ticks_between:
  "ticks between (connected inp elapsed) = connected inp (elapsed + between)"
proof -
  have "ticks between (connected inp elapsed)
      = (connected inp elapsed)\<lparr>now := now (connected inp elapsed) + of_nat between\<rparr>"
    by (rule ticks_no_deadline) (simp_all add: connected_def emptyConnection_def madeSlot_def)
  then show ?thesis
    by (simp add: connected_def)
qed

lemma newConnection_login_connected:
  "\<exists>c3. newConnection_login (connected inp n) user path t = Some (c3, NCLogin t (Selecting 0))
     \<and> deadline (requests c3 ! reqID_of 0) = (if t \<noteq> 0 then of_nat n + t else 0)
     \<and> length (wrBuf c3) = 1 \<and> err c3 = None"
proof -
  have s: "seqs (connected inp n) = 0 # map of_nat [1..<queueSize]"
    by (simp add: connected_def)
  have r: "reqID_of 0 = 0"
    by (simp add: reqID_of_def)
  show ?thesis
    unfolding newConnection_login_def login_begin_def Let_def
    by (simp add: rpcCall_begin_submitted [OF s] expired_def r connection_write_def setSeqNum_def
        setDeadline_def)
      (simp add: connected_def emptyConnection_def queueSize_def madeSlot_def)
qed

lemma newConnection_dialled:
  assumes "dialer (connect_call (loginTimeoutSec L)) = Connected inp"
  shows "newConnection dialer elapsed between L user path =
    (if loginTimeoutSec L \<noteq> 0 then
       (if of_nat elapsed < loginTimeoutSec L then
          newConnection_login (connected inp (elapsed + between)) user path
            (loginTimeoutSec L - of_nat (elapsed + between))
        else Some (onError (connected inp elapsed) (BindingsError ''Connect timeout'' ErrTimeout),
                   NCReturned None))
     else newConnection_login (connected inp elapsed) user path 0)"
proof -
  have n: "now (connected inp k) = of_nat k" for k
    by (simp add: connected_def)
  show ?thesis
    using assms
    by (simp add: newConnection_def connect_def Let_def ticks_connected ticks_between n)
qed

text \<open>
  What \<open>newConnection\<close> does with the login timeout \<open>T\<close>, in whole seconds, after a
  dial that succeeded. With \<open>T = 0\<close> the dial has no timeout and the login is submitted
  with timeout 0 and no deadline. With \<open>T \<noteq> 0\<close> the dial has timeout \<open>T\<close>; if the
  first load of \<open>c.now\<close> gives \<open>T\<close> or more, the connection fails with Connect timeout
  and no login frame is written; otherwise the login is submitted with \<open>T\<close> minus the
  second load of \<open>c.now\<close>, and a deadline is stored for it unless that difference is 0.
\<close>

lemma newConnection_budget:
  assumes "dialer (connect_call (loginTimeoutSec L)) = Connected inp"
  shows
   "(loginTimeoutSec L = 0 \<longrightarrow>
       connect_call (loginTimeoutSec L) = Dial
       \<and> (\<exists>c. newConnection dialer elapsed between L user path = Some (c, NCLogin 0 (Selecting 0))
             \<and> deadline (requests c ! reqID_of 0) = 0 \<and> length (wrBuf c) = 1 \<and> err c = None))
    \<and> (loginTimeoutSec L \<noteq> 0 \<longrightarrow> connect_call (loginTimeoutSec L) = DialTimeout (loginTimeoutSec L))
    \<and> (loginTimeoutSec L \<noteq> 0 \<longrightarrow> loginTimeoutSec L \<le> of_nat elapsed \<longrightarrow>
         (\<exists>c. newConnection dialer elapsed between L user path = Some (c, NCReturned None)
             \<and> err c = Some (BindingsError ''Connect timeout'' ErrTimeout) \<and> errCh c
             \<and> conn c = Some 1 \<and> wrBuf c = []))
    \<and> (loginTimeoutSec L \<noteq> 0 \<longrightarrow> of_nat elapsed < loginTimeoutSec L \<longrightarrow>
         (\<exists>c. newConnection dialer elapsed between L user path
                 = Some (c, NCLogin (loginTimeoutSec L - of_nat (elapsed + between)) (Selecting 0))
             \<and> deadline (requests c ! reqID_of 0)
                 = (if loginTimeoutSec L = of_nat (elapsed + between) then 0 else loginTimeoutSec L)
             \<and> length (wrBuf c) = 1 \<and> err c = None))"
proof -
  let ?T = "loginTimeoutSec L"
  have zero: "?T = 0 \<longrightarrow>
       connect_call ?T = Dial
       \<and> (\<exists>c. newConnection dialer elapsed between L user path = Some (c, NCLogin 0 (Selecting 0))
             \<and> deadline (requests c ! reqID_of 0) = 0 \<and> length (wrBuf c) = 1 \<and> err c = None)"
    using newConnection_login_connected [of inp elapsed user path 0] assms
    by (auto simp add: newConnection_dialled connect_call_def)
  have dial: "?T \<noteq> 0 \<longrightarrow> connect_call ?T = DialTimeout ?T"
    by (simp add: connect_call_def)
  have late: "?T \<noteq> 0 \<longrightarrow> ?T \<le> of_nat elapsed \<longrightarrow>
         (\<exists>c. newConnection dialer elapsed between L user path = Some (c, NCReturned None)
             \<and> err c = Some (BindingsError ''Connect timeout'' ErrTimeout) \<and> errCh c
             \<and> conn c = Some 1 \<and> wrBuf c = [])"
  proof (intro impI)
    assume nz: "?T \<noteq> 0" and le: "?T \<le> of_nat elapsed"
    from le have nl: "\<not> of_nat elapsed < ?T"
      by (simp add: not_less)
    have "newConnection dialer elapsed between L user path
        = Some (onError (connected inp elapsed) (BindingsError ''Connect timeout'' ErrTimeout),
                NCReturned None)"
      using assms nz nl by (simp add: newConnection_dialled)
    then show "\<exists>c. newConnection dialer elapsed between L user path = Some (c, NCReturned None)
             \<and> err c = Some (BindingsError ''Connect timeout'' ErrTimeout) \<and> errCh c
             \<and> conn c = Some 1 \<and> wrBuf c = []"
      by (simp add: onError_def connected_def emptyConnection_def)
  qed
  have intime: "?T \<noteq> 0 \<longrightarrow> of_nat elapsed < ?T \<longrightarrow>
         (\<exists>c. newConnection dialer elapsed between L user path
                 = Some (c, NCLogin (?T - of_nat (elapsed + between)) (Selecting 0))
             \<and> deadline (requests c ! reqID_of 0)
                 = (if ?T = of_nat (elapsed + between) then 0 else ?T)
             \<and> length (wrBuf c) = 1 \<and> err c = None)"
    using newConnection_login_connected
      [of inp "elapsed + between" user path "?T - of_nat (elapsed + between)"] assms
    by (auto simp add: newConnection_dialled)
  show ?thesis
    using zero dial late intime by blast
qed

text \<open>
  C8. The claim holds on the code while the ticker does not tick between the two loads of
  \<open>c.now\<close>, and fails when it does: the test uses the first value, the subtraction the
  second. Below, the login timeout is five seconds and the dial returns after four ticks.
  With a tick between the loads the test \<open>5 > 4\<close> passes and the subtraction gives
  \<open>5 - 5\<close>: the login is submitted with timeout 0 at \<open>now = 5\<close>, no deadline is stored
  for it, no error is raised, and it still waits after three more ticks. With no tick
  between the loads the login is submitted with timeout 1 and deadline 5.
\<close>

theorem newConnection_tick_between_loads:
  "loginTimeoutSec 5000000000 = 5
   \<and> map_option (\<lambda>r. (snd r, now (fst r), deadline (requests (fst r) ! 0), err (fst r),
                      length (wrBuf (fst r))))
        (newConnection (\<lambda>d. Connected []) 4 1 5000000000 None ''/db'')
       = Some (NCLogin 0 (Selecting 0), 5, 0, None, 1)
   \<and> map_option (\<lambda>s. (waiters s, finished s, now (con s), err (con s)))
        (Option.bind (boot (\<lambda>d. Connected []) 4 1 5000000000 None ''/db'')
          (run (\<lambda>b. None) [Tick, Tick, Tick]))
       = Some ([(0, 0)], [], 8, None)
   \<and> map_option (\<lambda>r. (snd r, now (fst r), deadline (requests (fst r) ! 0), err (fst r),
                      length (wrBuf (fst r))))
        (newConnection (\<lambda>d. Connected []) 4 0 5000000000 None ''/db'')
       = Some (NCLogin 1 (Selecting 0), 4, 5, None, 1)"
  by code_simp

subsection \<open>A deadline left in a slot\<close>

text \<open>
  C3. The claim does not hold on the code: \<open>rpcCall\<close> stores a deadline only when
  \<open>netTimeout\<close> is not 0 and nothing clears the field when a call ends before its
  deadline, so the next call on the slot inherits it. Below, the login runs on sequence 0
  with a timeout of one second and is answered at once, which leaves deadline 1 in slot 0.
  Sequences 1 to 39 are taken by other calls; the call on sequence 40 is submitted with
  \<open>netTimeout = 0\<close> and waits in slot 0. At the first tick the ticker sends sequence 40
  on the timeout channel, and the call returns the error Request timeout.
\<close>

theorem stale_deadline_times_out_call:
  "map_option (\<lambda>s. (finished s, map_of (waiters s) 40, seqNum (requests (con s) ! 0),
                     deadline (requests (con s) ! 0), now (con s)))
     (Option.bind (boot (\<lambda>d. Connected hdr_seq0_size0) 0 0 1000000000 None ''/db'')
        (run (\<lambda>b. None) ([Read, TakeReply 0] @ replicate 39 (Call None cmdPing 0 [])
            @ [Call None cmdPing 0 []])))
     = Some ([(0, 1, Some [], None)], Some 0, 40, 1, 0)
   \<and> map_option (\<lambda>s. (finished s, map_of (waiters s) 40, ticker s, now (con s)))
     (Option.bind (boot (\<lambda>d. Connected hdr_seq0_size0) 0 0 1000000000 None ''/db'')
        (run (\<lambda>b. None) ([Read, TakeReply 0] @ replicate 39 (Call None cmdPing 0 [])
            @ [Call None cmdPing 0 [], Tick, TakeTimeout 40])))
     = Some ([(0, 1, Some [], None),
              (40, 0, None, Some (BindingsError ''Request timeout'' ErrTimeout))],
             None, TickerIdle, 1)"
  by code_simp

end
